theory Spec2Isabelle
  imports Complex_Main
begin

section \<open>Checkout controller: the data\<close>

text \<open>
  The development embeds \<^verbatim>\<open>back/src/controllers/CheckoutController.js\<close>:
  \<^verbatim>\<open>resolveItems\<close>, \<^verbatim>\<open>quote\<close> and \<^verbatim>\<open>createOrder\<close>.

  Conventions of the embedding.
  \<^item> A JavaScript number is an exact rational (\<^typ>\<open>rat\<close>), and the arithmetic of the
    model is exact. The code computes in IEEE doubles, which give the same results on
    whole amounts of bounded size and may differ elsewhere (a price of 14.5 divided by
    100 and multiplied by 100 is 14.499999999999998 in the code); a property of computed
    amounts is therefore stated for whole data within bounds that keep the doubles
    exact, unless it does not depend on the rounding. A price in major units (an amount
    in minor units divided by 100) stands for the double nearest to it. The values \<^verbatim>\<open>Infinity\<close> and
    \<^verbatim>\<open>-Infinity\<close> are outside the model; \<^verbatim>\<open>NaN\<close>, where the code can produce and
    test it, is \<^term>\<open>None\<close> of \<^typ>\<open>rat option\<close>.
  \<^item> A field of a JSON object that the code reads through \<^verbatim>\<open>||\<close>, \<^verbatim>\<open>!\<close> or
    \<^verbatim>\<open>Number\<close> is a \<^typ>\<open>'a option\<close>: \<^term>\<open>None\<close> is \<^verbatim>\<open>undefined\<close> or \<^verbatim>\<open>null\<close>.
  \<^item> Money fields supplied by the client (\<^verbatim>\<open>price_cents\<close>, \<^verbatim>\<open>cost_cents\<close>) carry JSON
    numbers; quantity and product reference fields carry any scalar JSON value.
  \<^item> The ORM models, the services and \<^verbatim>\<open>utils/validation\<close> are not part of the
    controller; what the controller calls of them is a field of the record \<open>env\<close>. A
    service may throw, and so may a write of the ORM inside the transaction (the fields
    \<open>..._throws\<close>, given the row and the transaction's view of the store); reads of the
    store, \<^verbatim>\<open>sequelize.transaction\<close>, \<^verbatim>\<open>commit\<close> and \<^verbatim>\<open>rollback\<close> do not fail
    in the model.
\<close>

subsection \<open>Scalar JSON values and their coercions\<close>

datatype jsval = JNum rat | JStr string | JBool bool

text \<open>JavaScript truthiness of a present value: \<^verbatim>\<open>0\<close>, \<^verbatim>\<open>""\<close> and \<^verbatim>\<open>false\<close> are falsy.\<close>

fun truthy :: "jsval \<Rightarrow> bool" where
  "truthy (JNum r) = (r \<noteq> 0)"
| "truthy (JStr s) = (s \<noteq> [])"
| "truthy (JBool b) = b"

text \<open>\<^verbatim>\<open>!!field\<close> for a field that may be absent.\<close>

definition present :: "jsval option \<Rightarrow> bool" where
  "present f = (case f of None \<Rightarrow> False | Some v \<Rightarrow> truthy v)"

text \<open>\<^verbatim>\<open>field || dflt\<close> where \<open>dflt\<close> is a value.\<close>

definition or_else :: "jsval option \<Rightarrow> jsval \<Rightarrow> jsval" where
  "or_else f dflt = (case f of None \<Rightarrow> dflt | Some v \<Rightarrow> if truthy v then v else dflt)"

text \<open>\<^verbatim>\<open>a || b\<close> where \<open>b\<close> is itself a field that may be absent.\<close>

definition or_field :: "jsval option \<Rightarrow> jsval option \<Rightarrow> jsval option" where
  "or_field a b = (if present a then a else b)"

text \<open>
  \<^verbatim>\<open>Number(v)\<close> for a present value. The conversion of a string is the runtime's
  (\<^verbatim>\<open>StringToNumber\<close>), taken as the parameter \<open>sn\<close>; \<^term>\<open>None\<close> is \<^verbatim>\<open>NaN\<close>.
\<close>

fun Number :: "(string \<Rightarrow> rat option) \<Rightarrow> jsval \<Rightarrow> rat option" where
  "Number sn (JNum r) = Some r"
| "Number sn (JStr s) = sn s"
| "Number sn (JBool b) = Some (if b then 1 else 0)"

text \<open>\<^verbatim>\<open>Math.round\<close>: the nearest integer, a tie going up.\<close>

definition Math_round :: "rat \<Rightarrow> rat" where
  "Math_round x = of_int \<lfloor>x + 1 / 2\<rfloor>"

subsection \<open>Records of the request, the catalogue and the store\<close>

record product =
  p_id :: nat
  p_name :: string
  p_sku :: string
  p_active :: bool
  p_stockManaged :: bool
  p_stockQuantity :: rat
  p_priceCents :: rat
  p_weightGrams :: rat

text \<open>A cart line as the client sends it (fields \<^verbatim>\<open>qty\<close>, \<^verbatim>\<open>quantity\<close>,
  \<^verbatim>\<open>productId\<close>, \<^verbatim>\<open>id\<close>, \<^verbatim>\<open>sku\<close>, \<^verbatim>\<open>price_cents\<close>).\<close>

record cart_line =
  l_qty :: "jsval option"
  l_quantity :: "jsval option"
  l_productId :: "jsval option"
  l_id :: "jsval option"
  l_sku :: "jsval option"
  l_price_cents :: "rat option"

text \<open>The \<^verbatim>\<open>items\<close> entry of a request body: absent (or another falsy value), a truthy
  value that is not an array, or an array. An element of the array is \<open>Some\<close> cart
  line, or \<open>None\<close> for a \<^verbatim>\<open>null\<close> element, which has no fields to read. (Any other
  element that is not an object reads as a cart line with every field absent.)\<close>

datatype raw_items = Missing | NotAnArray | ItemArray "cart_line option list"

text \<open>An element pushed by \<^verbatim>\<open>resolveItems\<close>: \<^verbatim>\<open>{ product, qty, unit_price_cents }\<close>.\<close>

record resolved =
  product :: product
  qty :: rat
  unit_price_cents :: rat

record shipping_sel =
  s_price_cents :: "rat option"
  s_cost_cents :: "rat option"
  s_carrier :: "string option"
  s_name :: "string option"
  s_service :: "string option"
  s_delivery_time_days :: "rat option"

record body =
  b_items :: raw_items
  b_address_id :: "nat option"
  b_shipping :: "shipping_sel option"
  b_coupon_code :: "string option"

record user =
  u_id :: nat
  u_email :: string
  u_name :: string
  u_cpf :: string

record request =
  body :: body
  user :: user

record address =
  a_id :: nat
  a_userId :: nat

record order =
  o_id :: nat
  o_userId :: nat
  o_addressId :: nat
  subtotalCents :: rat
  shippingCents :: rat
  discountCents :: rat
  totalCents :: rat
  shippingCarrier :: "string option"
  shippingService :: "string option"
  shippingEstimateDays :: "rat option"
  mercadoPagoPreferenceId :: "string option"

record order_item =
  oi_orderId :: nat
  oi_productId :: nat
  oi_title :: string
  oi_sku :: string
  oi_quantity :: rat
  oi_unitPriceCents :: rat
  oi_weightGrams :: rat

text \<open>A line of the payment preference: \<^verbatim>\<open>{ title, quantity, currency_id, unit_price }\<close>,
  the unit price in major units.\<close>

record mp_item =
  title :: string
  quantity :: rat
  currency_id :: string
  unit_price :: rat

record preference =
  preferenceId :: string
  initPoint :: string

text \<open>The tables the controller reads and writes.\<close>

record db =
  products :: "product list"
  addresses :: "address list"
  orders :: "order list"
  orderItems :: "order_item list"

subsection \<open>Errors, responses and observable effects\<close>

text \<open>
  The controller throws \<^verbatim>\<open>Error\<close> objects told apart by their message:
  \<open>InvalidItems\<close> is \<^verbatim>\<open>'Itens invalidos.'\<close>, \<open>ProductNotFound r\<close> is
  \<^verbatim>\<open>'Produto nao encontrado: ' + r\<close>, \<open>InsufficientStock n\<close> is
  \<^verbatim>\<open>'Estoque insuficiente para ' + n\<close>. \<open>IncompleteData\<close> (\<^verbatim>\<open>'Dados incompletos.'\<close>)
  and \<open>InvalidAddress\<close> (\<^verbatim>\<open>'Endereco invalido.'\<close>) are sent without a throw.
  \<open>External m\<close> is an error thrown by a service, with its message, and \<open>OrderFailed\<close>
  is the fallback message \<^verbatim>\<open>'Falha ao criar pedido.'\<close>. \<open>TypeError\<close> is the error of
  the runtime for reading a property of \<^verbatim>\<open>null\<close>, with the runtime's message.
\<close>

datatype error =
    IncompleteData
  | InvalidItems
  | ProductNotFound "jsval option"
  | InsufficientStock string
  | InvalidAddress
  | External string
  | OrderFailed
  | TypeError

datatype coupon = Coupon string

datatype response =
    Json_created nat string string
  | Json_quote "shipping_sel list"
  | Json_error nat error

text \<open>Calls to the collaborating services and writes to the store, in the order made.
  The call to the payment gateway carries the lines submitted.\<close>

datatype event =
    CouponCall
  | ShippingCall
  | PaymentCall "mp_item list"
  | OrderInsert
  | OrderItemInsert
  | StockDecrement
  | OrderUpdate
  | Commit
  | Rollback

record env =
  StringToNumber :: "string \<Rightarrow> rat option"
  findByPk :: "product list \<Rightarrow> jsval \<Rightarrow> product option"
  findOneBySku :: "product list \<Rightarrow> jsval \<Rightarrow> product option"
  ensureFields :: "body \<Rightarrow> string list \<Rightarrow> string list"
  findActiveCoupon :: "string \<Rightarrow> error + coupon"
  computeDiscount :: "coupon \<Rightarrow> rat \<Rightarrow> error + rat"
  createPreference :: "mp_item list \<Rightarrow> user \<Rightarrow> error + preference"
  shippingQuote :: "string \<Rightarrow> (nat \<times> rat \<times> rat) list \<Rightarrow> error + shipping_sel list"
  Order_create_throws :: "order \<Rightarrow> db \<Rightarrow> error option"
  OrderItem_create_throws :: "order_item \<Rightarrow> db \<Rightarrow> error option"
  decrement_throws :: "product \<Rightarrow> rat \<Rightarrow> db \<Rightarrow> error option"
  order_update_throws :: "nat \<Rightarrow> string \<Rightarrow> db \<Rightarrow> error option"

section \<open>The item resolver\<close>

text \<open>Line 13: \<^verbatim>\<open>Number(item.qty || item.quantity || 1)\<close>.\<close>

definition line_qty :: "env \<Rightarrow> cart_line \<Rightarrow> rat option" where
  "line_qty E item = Number (StringToNumber E) (or_else (l_qty item) (or_else (l_quantity item) (JNum 1)))"

text \<open>Lines 15 to 28: the product lookup, by \<^verbatim>\<open>productId\<close>, else by \<^verbatim>\<open>id\<close> (as a
  primary key when it is a number, then as a SKU), else by \<^verbatim>\<open>sku\<close>.\<close>

definition lookupProduct :: "env \<Rightarrow> product list \<Rightarrow> cart_line \<Rightarrow> product option" where
  "lookupProduct E ps item =
     (if present (l_productId item) then
        (case l_productId item of None \<Rightarrow> None | Some k \<Rightarrow> findByPk E ps k)
      else if present (l_id item) then
        (case l_id item of None \<Rightarrow> None
         | Some v \<Rightarrow>
             (let byKey = (case Number (StringToNumber E) v of
                             None \<Rightarrow> None
                           | Some maybeId \<Rightarrow> findByPk E ps (JNum maybeId))
              in case byKey of Some p \<Rightarrow> Some p | None \<Rightarrow> findOneBySku E ps v))
      else if present (l_sku item) then
        (case l_sku item of None \<Rightarrow> None | Some s \<Rightarrow> findOneBySku E ps s)
      else None)"

text \<open>Line 30: the reference quoted in the message, \<^verbatim>\<open>item.sku || item.productId || item.id\<close>.\<close>

definition line_ref :: "cart_line \<Rightarrow> jsval option" where
  "line_ref item = or_field (l_sku item) (or_field (l_productId item) (l_id item))"

text \<open>
  The body of the loop (lines 13 to 39) for one cart line: \<open>Inl e\<close> is a throw,
  \<open>Inr None\<close> is \<^verbatim>\<open>continue\<close>, \<open>Inr (Some r)\<close> is the element pushed.
\<close>

definition resolveLine :: "env \<Rightarrow> product list \<Rightarrow> cart_line \<Rightarrow> error + resolved option" where
  "resolveLine E ps item =
     (case line_qty E item of
        None \<Rightarrow> Inr None
      | Some q \<Rightarrow>
          if q = 0 \<or> q \<le> 0 then Inr None
          else
            (case lookupProduct E ps item of
               None \<Rightarrow> Inl (ProductNotFound (line_ref item))
             | Some p \<Rightarrow>
                 if \<not> p_active p then Inl (ProductNotFound (line_ref item))
                 else if p_stockManaged p \<and> p_stockQuantity p < q
                   then Inl (InsufficientStock (p_name p))
                 else Inr (Some \<lparr>product = p, qty = q,
                   unit_price_cents = (case l_price_cents item of
                                         Some c \<Rightarrow> c | None \<Rightarrow> p_priceCents p)\<rparr>)))"

text \<open>One turn of the loop on an element of the array: line 13 reads \<^verbatim>\<open>item.qty\<close>,
  which throws on a \<^verbatim>\<open>null\<close> element.\<close>

definition resolveElement :: "env \<Rightarrow> product list \<Rightarrow> cart_line option \<Rightarrow> error + resolved option" where
  "resolveElement E ps el = (case el of None \<Rightarrow> Inl TypeError | Some item \<Rightarrow> resolveLine E ps item)"

text \<open>The \<^verbatim>\<open>for ... of\<close> loop; \<open>items\<close> is the array built so far.\<close>

fun resolveLoop ::
  "env \<Rightarrow> product list \<Rightarrow> cart_line option list \<Rightarrow> resolved list \<Rightarrow> error + resolved list" where
  "resolveLoop E ps [] items = Inr items"
| "resolveLoop E ps (el # rest) items =
     (case resolveElement E ps el of
        Inl e \<Rightarrow> Inl e
      | Inr None \<Rightarrow> resolveLoop E ps rest items
      | Inr (Some r) \<Rightarrow> resolveLoop E ps rest (items @ [r]))"

definition resolveItems :: "env \<Rightarrow> product list \<Rightarrow> raw_items \<Rightarrow> error + resolved list" where
  "resolveItems E ps rawItems =
     (case rawItems of
        Missing \<Rightarrow> Inl InvalidItems
      | NotAnArray \<Rightarrow> Inl InvalidItems
      | ItemArray ls \<Rightarrow>
          if ls = [] then Inl InvalidItems
          else (case resolveLoop E ps ls [] of
                  Inl e \<Rightarrow> Inl e
                | Inr items \<Rightarrow> if items = [] then Inl InvalidItems else Inr items))"

section \<open>Order creation\<close>

subsection \<open>Pricing\<close>

text \<open>Line 84: \<^verbatim>\<open>Address.findOne({ where: { id: address_id, userId: req.user.id } })\<close>,
  the first row matching both columns.\<close>

definition findAddress :: "address list \<Rightarrow> nat option \<Rightarrow> nat \<Rightarrow> address option" where
  "findAddress rows address_id userId =
     (case address_id of
        None \<Rightarrow> None
      | Some i \<Rightarrow> find (\<lambda>a. a_id a = i \<and> a_userId a = userId) rows)"

text \<open>Line 89: \<^verbatim>\<open>items.reduce((acc, item) => acc + item.unit_price_cents * item.qty, 0)\<close>.\<close>

definition subtotalOf :: "resolved list \<Rightarrow> rat" where
  "subtotalOf items = foldl (\<lambda>acc item. acc + unit_price_cents item * qty item) 0 items"

text \<open>Lines 91 to 96: the coupon, looked up only for a truthy \<^verbatim>\<open>coupon_code\<close>.
  The result carries the calls made to the coupon service.\<close>

definition couponDiscount :: "env \<Rightarrow> string option \<Rightarrow> rat \<Rightarrow> event list \<times> (error + rat)" where
  "couponDiscount E code subtotal =
     (case code of
        None \<Rightarrow> ([], Inr 0)
      | Some c \<Rightarrow>
          if c = [] then ([], Inr 0)
          else (case findActiveCoupon E c of
                  Inl e \<Rightarrow> ([CouponCall], Inl e)
                | Inr coupon \<Rightarrow>
                    (case computeDiscount E coupon subtotal of
                       Inl e \<Rightarrow> ([CouponCall, CouponCall], Inl e)
                     | Inr d \<Rightarrow> ([CouponCall, CouponCall], Inr d))))"

text \<open>\<^verbatim>\<open>x || dflt\<close> on a numeric field, \<^verbatim>\<open>x || null\<close> on a string field.\<close>

definition num_or :: "rat option \<Rightarrow> rat \<Rightarrow> rat" where
  "num_or f dflt = (case f of None \<Rightarrow> dflt | Some x \<Rightarrow> if x = 0 then dflt else x)"

definition str_or_null :: "string option \<Rightarrow> string option" where
  "str_or_null f = (case f of None \<Rightarrow> None | Some s \<Rightarrow> if s = [] then None else Some s)"

text \<open>Line 98: \<^verbatim>\<open>req.body.shipping || {}\<close>.\<close>

definition emptySelection :: shipping_sel where
  "emptySelection = \<lparr>s_price_cents = None, s_cost_cents = None, s_carrier = None,
     s_name = None, s_service = None, s_delivery_time_days = None\<rparr>"

definition selectionOf :: "body \<Rightarrow> shipping_sel" where
  "selectionOf b = (case b_shipping b of None \<Rightarrow> emptySelection | Some s \<Rightarrow> s)"

text \<open>Line 99: \<^verbatim>\<open>Number(sel.price_cents || sel.cost_cents || 0)\<close>.\<close>

definition shippingCentsOf :: "shipping_sel \<Rightarrow> rat" where
  "shippingCentsOf sel = num_or (s_price_cents sel) (num_or (s_cost_cents sel) 0)"

text \<open>Line 100: \<^verbatim>\<open>Math.max(0, subtotalCents + shippingCents - discountCents)\<close>.\<close>

definition totalOf :: "rat \<Rightarrow> rat \<Rightarrow> rat \<Rightarrow> rat" where
  "totalOf subtotal shipping discount = max 0 (subtotal + shipping - discount)"

subsection \<open>Persistence inside the transaction\<close>

text \<open>The key the store gives a new order row: above every key in the table.\<close>

definition nextOrderId :: "order list \<Rightarrow> nat" where
  "nextOrderId rows = Suc (foldr max (map o_id rows) 0)"

text \<open>Lines 102 to 115: the row handed to \<^verbatim>\<open>Order.create\<close>.\<close>

definition orderRow :: "nat \<Rightarrow> user \<Rightarrow> address \<Rightarrow> shipping_sel \<Rightarrow> rat \<Rightarrow> rat \<Rightarrow> rat \<Rightarrow> rat \<Rightarrow> order" where
  "orderRow key u addr sel subtotal shipping discount grandTotal =
     \<lparr>o_id = key, o_userId = u_id u, o_addressId = a_id addr,
      subtotalCents = subtotal, shippingCents = shipping,
      discountCents = discount, totalCents = grandTotal,
      shippingCarrier = str_or_null (s_carrier sel),
      shippingService = (case str_or_null (s_name sel) of
                           Some n \<Rightarrow> Some n | None \<Rightarrow> str_or_null (s_service sel)),
      shippingEstimateDays = (case s_delivery_time_days sel of
                                None \<Rightarrow> None | Some d \<Rightarrow> if d = 0 then None else Some d),
      mercadoPagoPreferenceId = None\<rparr>"

text \<open>Lines 118 to 129: the row handed to \<^verbatim>\<open>OrderItem.create\<close>.\<close>

definition itemRow :: "nat \<Rightarrow> resolved \<Rightarrow> order_item" where
  "itemRow key item =
     \<lparr>oi_orderId = key, oi_productId = p_id (product item),
      oi_title = p_name (product item), oi_sku = p_sku (product item),
      oi_quantity = qty item, oi_unitPriceCents = unit_price_cents item,
      oi_weightGrams = p_weightGrams (product item)\<rparr>"

text \<open>Line 131: \<^verbatim>\<open>item.product.decrement('stockQuantity', { by: item.qty, transaction })\<close>.\<close>

definition decrementStock :: "product \<Rightarrow> rat \<Rightarrow> db \<Rightarrow> db" where
  "decrementStock p amount tx =
     tx\<lparr>products := map (\<lambda>r. if p_id r = p_id p
                               then r\<lparr>p_stockQuantity := p_stockQuantity r - amount\<rparr>
                               else r) (products tx)\<rparr>"

text \<open>Lines 117 to 133: the loop over the resolved items, on the transaction's view of
  the store and the effects so far. \<open>Inl\<close> is a write that threw, with the effects up to
  it.\<close>

fun persistItems ::
  "env \<Rightarrow> nat \<Rightarrow> resolved list \<Rightarrow> db \<times> event list \<Rightarrow> (error \<times> event list) + (db \<times> event list)" where
  "persistItems E key [] st = Inr st"
| "persistItems E key (item # rest) (tx, tr) =
     (case OrderItem_create_throws E (itemRow key item) tx of
        Some e \<Rightarrow> Inl (e, tr)
      | None \<Rightarrow>
          (let tx1 = tx\<lparr>orderItems := orderItems tx @ [itemRow key item]\<rparr>;
               tr1 = tr @ [OrderItemInsert]
           in if p_stockManaged (product item)
              then (case decrement_throws E (product item) (qty item) tx1 of
                      Some e \<Rightarrow> Inl (e, tr1)
                    | None \<Rightarrow>
                        persistItems E key rest
                          (decrementStock (product item) (qty item) tx1, tr1 @ [StockDecrement]))
              else persistItems E key rest (tx1, tr1)))"

text \<open>Lines 171 to 176: \<^verbatim>\<open>order.update({ mercadoPagoPreferenceId })\<close> on the row
  created above.\<close>

definition attachPreference :: "nat \<Rightarrow> string \<Rightarrow> db \<Rightarrow> db" where
  "attachPreference key pref tx =
     tx\<lparr>orders := map (\<lambda>r. if o_id r = key then r\<lparr>mercadoPagoPreferenceId := Some pref\<rparr> else r)
                       (orders tx)\<rparr>"

subsection \<open>Payment lines and the allocation of the discount\<close>

text \<open>Lines 135 to 148: one line for each resolved item, and one for shipping when
  \<^verbatim>\<open>shippingCents > 0\<close>.\<close>

definition itemLine :: "resolved \<Rightarrow> mp_item" where
  "itemLine item = \<lparr>title = p_name (product item), quantity = qty item,
     currency_id = ''BRL'', unit_price = unit_price_cents item / 100\<rparr>"

definition shippingLine :: "shipping_sel \<Rightarrow> rat \<Rightarrow> mp_item" where
  "shippingLine sel shipping =
     \<lparr>title = (case str_or_null (s_name sel) of
                 Some n \<Rightarrow> ''Frete - '' @ n | None \<Rightarrow> ''Frete''),
      quantity = 1, currency_id = ''BRL'', unit_price = shipping / 100\<rparr>"

definition buildMpItems :: "resolved list \<Rightarrow> shipping_sel \<Rightarrow> rat \<Rightarrow> mp_item list" where
  "buildMpItems items sel shipping =
     map itemLine items @ (if shipping > 0 then [shippingLine sel shipping] else [])"

text \<open>Line 153: \<^verbatim>\<open>Math.round(mpItem.unit_price * 100 * mpItem.quantity)\<close>.\<close>

definition itemTotalCents :: "mp_item \<Rightarrow> rat" where
  "itemTotalCents mpItem = Math_round (unit_price mpItem * 100 * quantity mpItem)"

text \<open>
  Lines 151 to 159: the callback of \<^verbatim>\<open>mpItems.forEach\<close>, with the captured variable
  \<^verbatim>\<open>remainingDiscount\<close> passed along. A \<^verbatim>\<open>return\<close> of the callback leaves the line as
  it is and goes on to the next.
\<close>

fun allocate :: "rat \<Rightarrow> mp_item list \<Rightarrow> mp_item list" where
  "allocate remainingDiscount [] = []"
| "allocate remainingDiscount (mpItem # rest) =
     (if remainingDiscount \<le> 0 then mpItem # allocate remainingDiscount rest
      else if itemTotalCents mpItem \<le> 0 then mpItem # allocate remainingDiscount rest
      else
        (let deduction = min (itemTotalCents mpItem) remainingDiscount;
             newTotalCents = itemTotalCents mpItem - deduction
         in mpItem\<lparr>unit_price := max 0 (Math_round (newTotalCents / quantity mpItem) / 100)\<rparr>
              # allocate (remainingDiscount - deduction) rest))"

text \<open>Lines 149 to 160: the guard \<^verbatim>\<open>discountCents > 0 && mpItems.length\<close>.\<close>

definition applyDiscount :: "rat \<Rightarrow> mp_item list \<Rightarrow> mp_item list" where
  "applyDiscount discount mpItems =
     (if discount > 0 \<and> mpItems \<noteq> [] then allocate discount mpItems else mpItems)"

text \<open>The lines handed to the payment gateway.\<close>

definition paymentLines :: "resolved list \<Rightarrow> shipping_sel \<Rightarrow> rat \<Rightarrow> mp_item list" where
  "paymentLines items sel discount =
     applyDiscount discount (buildMpItems items sel (shippingCentsOf sel))"

subsection \<open>The handler\<close>

text \<open>Line 186: \<^verbatim>\<open>error.message || 'Falha ao criar pedido.'\<close>.\<close>

definition caughtMessage :: "error \<Rightarrow> error" where
  "caughtMessage e = (case e of External m \<Rightarrow> if m = [] then OrderFailed else External m | _ \<Rightarrow> e)"

text \<open>
  \<^verbatim>\<open>createOrder\<close>, lines 75 to 188. The transaction works on a view \<open>tx\<close> of the
  store: \<^verbatim>\<open>commit\<close> makes the view the store, \<^verbatim>\<open>rollback\<close> keeps the store as it
  was. The result is the response, the effects in order, and the store afterwards.
\<close>

definition createOrder :: "env \<Rightarrow> db \<Rightarrow> request \<Rightarrow> response \<times> event list \<times> db" where
  "createOrder E store req =
     (if ensureFields E (body req) [''items'', ''address_id'', ''shipping''] \<noteq> []
      then (Json_error 400 IncompleteData, [Rollback], store)
      else
        (case resolveItems E (products store) (b_items (body req)) of
           Inl e \<Rightarrow> (Json_error 400 (caughtMessage e), [Rollback], store)
         | Inr items \<Rightarrow>
             (case findAddress (addresses store) (b_address_id (body req)) (u_id (user req)) of
                None \<Rightarrow> (Json_error 404 InvalidAddress, [Rollback], store)
              | Some addr \<Rightarrow>
                  (case couponDiscount E (b_coupon_code (body req)) (subtotalOf items) of
                     (tr, Inl e) \<Rightarrow> (Json_error 400 (caughtMessage e), tr @ [Rollback], store)
                   | (tr, Inr discount) \<Rightarrow>
                       (let sel = selectionOf (body req);
                            shipping = shippingCentsOf sel;
                            grandTotal = totalOf (subtotalOf items) shipping discount;
                            key = nextOrderId (orders store);
                            row = orderRow key (user req) addr sel (subtotalOf items) shipping discount grandTotal
                        in case Order_create_throws E row store of
                             Some e \<Rightarrow> (Json_error 400 (caughtMessage e), tr @ [Rollback], store)
                           | None \<Rightarrow>
                               (case persistItems E key items
                                       (store\<lparr>orders := orders store @ [row]\<rparr>, tr @ [OrderInsert]) of
                                  Inl (e, tr2) \<Rightarrow>
                                    (Json_error 400 (caughtMessage e), tr2 @ [Rollback], store)
                                | Inr (tx2, tr2) \<Rightarrow>
                                    (let mpItems = paymentLines items sel discount
                                     in case createPreference E mpItems (user req) of
                                          Inl e \<Rightarrow>
                                            (Json_error 400 (caughtMessage e),
                                             tr2 @ [PaymentCall mpItems, Rollback], store)
                                        | Inr pref \<Rightarrow>
                                            (case order_update_throws E key (preferenceId pref) tx2 of
                                               Some e \<Rightarrow>
                                                 (Json_error 400 (caughtMessage e),
                                                  tr2 @ [PaymentCall mpItems, Rollback], store)
                                             | None \<Rightarrow>
                                                 (Json_created key (preferenceId pref) (initPoint pref),
                                                  tr2 @ [PaymentCall mpItems, OrderUpdate, Commit],
                                                  attachPreference key (preferenceId pref) tx2)))))))))"

section \<open>The shipping quote\<close>

record quote_query =
  q_sku :: "string option"
  q_id :: "string option"
  q_productId :: "string option"
  q_qty :: "string option"
  q_cep :: "string option"
  q_postal_code :: "string option"

record destination =
  d_cep :: "string option"
  d_postal_code :: "string option"

record quote_request =
  qr_items :: raw_items
  qr_destination :: "destination option"
  qr_query :: quote_query

text \<open>\<^verbatim>\<open>a || b\<close> on strings, and \<^verbatim>\<open>s.replace(/\D/g, '')\<close>.\<close>

definition str_or :: "string option \<Rightarrow> string \<Rightarrow> string" where
  "str_or f dflt = (case f of None \<Rightarrow> dflt | Some s \<Rightarrow> if s = [] then dflt else s)"

definition digitsOnly :: "string \<Rightarrow> string" where
  "digitsOnly s = filter (\<lambda>c. c \<in> set ''0123456789'') s"

text \<open>Lines 51 to 57: the cart line and destination built from the query string. A
  quantity that is \<^verbatim>\<open>NaN\<close> is falsy, as an absent one is.\<close>

definition queryLine :: "env \<Rightarrow> quote_query \<Rightarrow> cart_line" where
  "queryLine E q =
     \<lparr>l_qty = map_option JNum
                (case q_qty q of
                   None \<Rightarrow> Some 1
                 | Some s \<Rightarrow> if s = [] then Some 1 else StringToNumber E s),
      l_quantity = None, l_productId = None, l_id = None,
      l_sku = Some (JStr (str_or (q_sku q) (str_or (q_id q) (str_or (q_productId q) ''STACK-DUPLO'')))),
      l_price_cents = None\<rparr>"

definition queryCep :: "quote_query \<Rightarrow> string" where
  "queryCep q = take 8 (digitsOnly (str_or (q_cep q) (str_or (q_postal_code q) [])))"

text \<open>\<^verbatim>\<open>quote\<close>, lines 47 to 73: the response and the calls to the shipping service.\<close>

definition quoteItems :: "env \<Rightarrow> product list \<Rightarrow> raw_items \<Rightarrow> string \<Rightarrow> response \<times> event list" where
  "quoteItems E ps rawItems destinationCep =
     (case resolveItems E ps rawItems of
        Inl e \<Rightarrow> (Json_error 400 e, [])
      | Inr items \<Rightarrow>
          (case shippingQuote E destinationCep
                  (map (\<lambda>item. (p_id (product item), qty item, unit_price_cents item)) items) of
             Inl e \<Rightarrow> (Json_error 400 e, [ShippingCall])
           | Inr quoteResult \<Rightarrow> (Json_quote quoteResult, [ShippingCall])))"

definition quote :: "env \<Rightarrow> db \<Rightarrow> quote_request \<Rightarrow> response \<times> event list" where
  "quote E store req =
     (case (qr_items req, qr_destination req) of
        (ItemArray ls, Some dest) \<Rightarrow>
          quoteItems E (products store) (ItemArray ls)
            (digitsOnly (str_or (d_cep dest) (str_or (d_postal_code dest) [])))
      | (NotAnArray, Some dest) \<Rightarrow>
          quoteItems E (products store) NotAnArray
            (digitsOnly (str_or (d_cep dest) (str_or (d_postal_code dest) [])))
      | _ \<Rightarrow>
          if queryCep (qr_query req) = [] then (Json_error 400 IncompleteData, [])
          else quoteItems E (products store) (ItemArray [Some (queryLine E (qr_query req))])
                 (digitsOnly (queryCep (qr_query req))))"

section \<open>Vocabulary of the properties\<close>

text \<open>A number without a fractional part.\<close>

definition isInteger :: "rat \<Rightarrow> bool" where
  "isInteger x = (of_int \<lfloor>x\<rfloor> = x)"

text \<open>A cart line whose quantity the resolver keeps: a number above zero.\<close>

definition usableQty :: "env \<Rightarrow> cart_line \<Rightarrow> bool" where
  "usableQty E item = (case line_qty E item of None \<Rightarrow> False | Some q \<Rightarrow> 0 < q)"

text \<open>An element of the array that the loop passes over: a cart line whose quantity is
  not usable.\<close>

definition skipped :: "env \<Rightarrow> cart_line option \<Rightarrow> bool" where
  "skipped E el = (case el of None \<Rightarrow> False | Some item \<Rightarrow> \<not> usableQty E item)"

text \<open>An element of the array that yields no usable quantity: \<^verbatim>\<open>null\<close>, or a cart
  line whose quantity is not usable.\<close>

definition noUsableQty :: "env \<Rightarrow> cart_line option \<Rightarrow> bool" where
  "noUsableQty E el = (case el of None \<Rightarrow> True | Some item \<Rightarrow> \<not> usableQty E item)"

text \<open>An element of the array that makes the resolver throw.\<close>

definition lineFails :: "env \<Rightarrow> product list \<Rightarrow> cart_line option \<Rightarrow> bool" where
  "lineFails E ps el = (case resolveElement E ps el of Inl e \<Rightarrow> True | Inr r \<Rightarrow> False)"

text \<open>The line subtotal in minor units as the specification writes it:
  \<^verbatim>\<open>round(unit_price * 100) * quantity\<close>.\<close>

definition lineCents :: "mp_item \<Rightarrow> rat" where
  "lineCents m = Math_round (unit_price m * 100) * quantity m"

text \<open>The discount still to be placed when line \<open>i\<close> is reached, and the part of it
  that line \<open>i\<close> takes; a line whose subtotal is not positive takes nothing.\<close>

definition remainingBefore :: "rat \<Rightarrow> mp_item list \<Rightarrow> nat \<Rightarrow> rat" where
  "remainingBefore d ms i = max 0 (d - (\<Sum>m\<leftarrow>take i ms. max 0 (itemTotalCents m)))"

definition deductionAt :: "rat \<Rightarrow> mp_item list \<Rightarrow> nat \<Rightarrow> rat" where
  "deductionAt d ms i = min (max 0 (itemTotalCents (ms ! i))) (remainingBefore d ms i)"

text \<open>
  The allocation as the specification words it, the line subtotal being
  \<^verbatim>\<open>round(unit_price * 100) * quantity\<close>: every line with a positive subtotal gives up
  \<^verbatim>\<open>min(line subtotal, remaining discount)\<close> and has its unit price recomputed.
\<close>

fun specAllocate :: "rat \<Rightarrow> mp_item list \<Rightarrow> mp_item list" where
  "specAllocate remaining [] = []"
| "specAllocate remaining (m # ms) =
     (if 0 < lineCents m then
        (let deduction = min (lineCents m) remaining
         in m\<lparr>unit_price := max 0 (Math_round ((lineCents m - deduction) / quantity m) / 100)\<rparr>
              # specAllocate (remaining - deduction) ms)
      else m # specAllocate remaining ms)"

text \<open>The data model of the specification for a resolved item: a whole, non-negative
  price in minor units and a whole quantity.\<close>

definition wholeItem :: "resolved \<Rightarrow> bool" where
  "wholeItem item = (isInteger (unit_price_cents item) \<and> 0 \<le> unit_price_cents item
     \<and> isInteger (qty item) \<and> 0 < qty item)"

text \<open>
  Whole amounts for which the totals of the code are exact: sums and products of whole
  numbers are exact in doubles as long as they stay within \<open>2 ^ 53\<close>.
\<close>

definition exactTotals :: "resolved list \<Rightarrow> rat \<Rightarrow> rat \<Rightarrow> bool" where
  "exactTotals items shipping discount =
     (list_all (\<lambda>item. isInteger (unit_price_cents item) \<and> isInteger (qty item)) items
      \<and> isInteger shipping \<and> isInteger discount
      \<and> (\<Sum>item\<leftarrow>items. \<bar>unit_price_cents item * qty item\<bar>) + \<bar>shipping\<bar> + \<bar>discount\<bar> \<le> 2 ^ 53)"

text \<open>
  Whole amounts for which the payment lines of the code are exact. A price in major
  units is a rounded double, and the subtotal of a line recomputed from it is off by
  less than a half, so that \<^verbatim>\<open>Math.round\<close> gives the whole subtotal back, as long as
  the subtotal stays within \<open>2 ^ 50\<close>.
\<close>

definition exactLines :: "resolved list \<Rightarrow> rat \<Rightarrow> rat \<Rightarrow> bool" where
  "exactLines items shipping discount =
     (list_all (\<lambda>item. wholeItem item \<and> unit_price_cents item * qty item \<le> 2 ^ 50) items
      \<and> isInteger shipping \<and> 0 \<le> shipping \<and> shipping \<le> 2 ^ 50
      \<and> isInteger discount \<and> discount \<le> 2 ^ 50)"

text \<open>The same for a payment line, whose unit price is in major units.\<close>

definition wholeLine :: "mp_item \<Rightarrow> bool" where
  "wholeLine m = (isInteger (unit_price m * 100) \<and> 0 \<le> unit_price m
     \<and> isInteger (quantity m) \<and> 0 < quantity m)"

section \<open>A shop to run the handlers on\<close>

definition demoProduct :: product where
  "demoProduct = \<lparr>p_id = 1, p_name = ''Stack'', p_sku = ''A'', p_active = True,
     p_stockManaged = True, p_stockQuantity = 50, p_priceCents = 1000, p_weightGrams = 200\<rparr>"

definition demoRetired :: product where
  "demoRetired = \<lparr>p_id = 2, p_name = ''Retired'', p_sku = ''R'', p_active = False,
     p_stockManaged = False, p_stockQuantity = 0, p_priceCents = 700, p_weightGrams = 100\<rparr>"

definition demoEnv :: env where
  "demoEnv = \<lparr>StringToNumber = (\<lambda>s. if s = ''2'' then Some 2 else None),
     findByPk = (\<lambda>ps k. find (\<lambda>p. JNum (of_nat (p_id p)) = k) ps),
     findOneBySku = (\<lambda>ps k. find (\<lambda>p. JStr (p_sku p) = k) ps),
     ensureFields = (\<lambda>b fs. []),
     findActiveCoupon = (\<lambda>c. if c = ''OFF'' \<or> c = ''FIVE'' then Inr (Coupon c)
                              else Inl (External ''Cupom invalido'')),
     computeDiscount = (\<lambda>c subtotal. if c = Coupon ''FIVE'' then Inr 5 else Inr 300),
     createPreference = (\<lambda>ls u. Inr \<lparr>preferenceId = ''pref-1'', initPoint = ''https://pay''\<rparr>),
     shippingQuote = (\<lambda>cep ls. Inr []),
     Order_create_throws = (\<lambda>row tx. None),
     OrderItem_create_throws = (\<lambda>row tx. None),
     decrement_throws = (\<lambda>p amount tx. None),
     order_update_throws = (\<lambda>key pref tx. None)\<rparr>"

text \<open>The same shop with the payment gateway down.\<close>

definition demoEnvNoGateway :: env where
  "demoEnvNoGateway = demoEnv\<lparr>createPreference := (\<lambda>ls u. Inl (External ''gateway down''))\<rparr>"

text \<open>The same shop with a store that refuses a stock decrement.\<close>

definition demoEnvNoDecrement :: env where
  "demoEnvNoDecrement = demoEnv\<lparr>decrement_throws := (\<lambda>p amount tx. Some (External ''locked''))\<rparr>"

definition demoStore :: db where
  "demoStore = \<lparr>products = [demoProduct, demoRetired],
     addresses = [\<lparr>a_id = 7, a_userId = 1\<rparr>, \<lparr>a_id = 8, a_userId = 2\<rparr>],
     orders = [], orderItems = []\<rparr>"

definition demoUser :: user where
  "demoUser = \<lparr>u_id = 1, u_email = ''ana@example.org'', u_name = ''Ana'', u_cpf = ''000''\<rparr>"

text \<open>A cart line \<^verbatim>\<open>{ sku, qty, price_cents }\<close>.\<close>

definition demoLine :: "string \<Rightarrow> rat \<Rightarrow> rat \<Rightarrow> cart_line" where
  "demoLine s q c = \<lparr>l_qty = Some (JNum q), l_quantity = None, l_productId = None, l_id = None,
     l_sku = Some (JStr s), l_price_cents = Some c\<rparr>"

definition demoShipping :: "rat \<Rightarrow> shipping_sel" where
  "demoShipping c = emptySelection\<lparr>s_price_cents := Some c\<rparr>"

definition demoRequest :: "cart_line list \<Rightarrow> nat \<Rightarrow> rat \<Rightarrow> string option \<Rightarrow> request" where
  "demoRequest ls addr ship code =
     \<lparr>body = \<lparr>b_items = ItemArray (map Some ls), b_address_id = Some addr,
               b_shipping = Some (demoShipping ship), b_coupon_code = code\<rparr>,
      user = demoUser\<rparr>"

definition demoItem :: "rat \<Rightarrow> rat \<Rightarrow> resolved" where
  "demoItem q c = \<lparr>product = demoProduct, qty = q, unit_price_cents = c\<rparr>"

text \<open>A quote request with a body \<^verbatim>\<open>{ items, destination: { cep } }\<close>.\<close>

definition demoQuote :: "raw_items \<Rightarrow> quote_request" where
  "demoQuote raw =
     \<lparr>qr_items = raw,
      qr_destination = Some \<lparr>d_cep = Some ''01310-100'', d_postal_code = None\<rparr>,
      qr_query = \<lparr>q_sku = None, q_id = None, q_productId = None, q_qty = None,
                   q_cep = None, q_postal_code = None\<rparr>\<rparr>"

section \<open>Auxiliary facts\<close>

subsection \<open>Rounding and whole numbers\<close>

lemma foldl_sum: "foldl (\<lambda>acc x. acc + f x) a xs = a + (\<Sum>x\<leftarrow>xs. f x)" for a :: rat
  by (induction xs arbitrary: a) (simp_all add: add.assoc)


lemma floor_half: "\<lfloor>rat_of_int k + 1 / 2\<rfloor> = k"
  by linarith

lemma round_int: "Math_round (of_int k) = of_int k"
  unfolding Math_round_def by (simp only: floor_half)


lemma isInteger_iff: "isInteger x \<longleftrightarrow> (\<exists>k. x = of_int k)"
  unfolding isInteger_def by (metis floor_of_int)

lemma round_whole: "isInteger x \<Longrightarrow> Math_round x = x"
  by (auto simp: isInteger_iff round_int)


lemma isInteger_mult: "isInteger x \<Longrightarrow> isInteger y \<Longrightarrow> isInteger (x * y)"
  unfolding isInteger_iff by (metis of_int_mult)

lemma isInteger_add: "isInteger x \<Longrightarrow> isInteger y \<Longrightarrow> isInteger (x + y)"
  unfolding isInteger_iff by (metis of_int_add)

lemma isInteger_diff: "isInteger x \<Longrightarrow> isInteger y \<Longrightarrow> isInteger (x - y)"
  unfolding isInteger_iff by (metis of_int_diff)

lemma allocate_nonpos: "d \<le> 0 \<Longrightarrow> allocate d ms = ms"
  by (induction ms) simp_all

lemma length_allocate: "length (allocate d ms) = length ms"
  by (induction ms arbitrary: d) (simp_all add: Let_def)


lemma allocate_floor:
  "list_all2 (\<lambda>m m'. min 0 (unit_price m) \<le> unit_price m') ms (allocate d ms)"
  by (induction ms arbitrary: d) (simp_all add: Let_def min_le_iff_disj le_max_iff_disj)

lemma taken_nonneg: "0 \<le> (\<Sum>m\<leftarrow>xs. max 0 (itemTotalCents m))"
  by (rule sum_list_nonneg) auto

text \<open>The discount handed to the rest of the list after one line.\<close>

lemma remaining_Suc:
  "remainingBefore d (m # ms) (Suc j) =
     remainingBefore (if d \<le> 0 \<or> itemTotalCents m \<le> 0 then d else d - min (itemTotalCents m) d) ms j"
  using taken_nonneg [of "take j ms"]
  unfolding remainingBefore_def by (simp add: min_def max_def)

lemma deduction_Suc:
  "deductionAt d (m # ms) (Suc j) =
     deductionAt (if d \<le> 0 \<or> itemTotalCents m \<le> 0 then d else d - min (itemTotalCents m) d) ms j"
  unfolding deductionAt_def by (simp only: remaining_Suc nth_Cons_Suc)

lemma deduction_0:
  "deductionAt d (m # ms) 0 = (if d \<le> 0 \<or> itemTotalCents m \<le> 0 then 0 else min (itemTotalCents m) d)"
  unfolding deductionAt_def remainingBefore_def by (simp add: min_def max_def)

lemma allocate_nth:
  "i < length ms \<Longrightarrow>
   allocate d ms ! i =
     (if 0 < deductionAt d ms i
      then (ms ! i)\<lparr>unit_price :=
             max 0 (Math_round ((itemTotalCents (ms ! i) - deductionAt d ms i) / quantity (ms ! i)) / 100)\<rparr>
      else ms ! i)"
proof (induction ms arbitrary: d i)
  case Nil
  then show ?case by simp
next
  case (Cons m ms)
  show ?case
  proof (cases i)
    case 0
    then show ?thesis
      by (simp add: deduction_0 Let_def min_def)
  next
    case (Suc j)
    with Cons.prems have j: "j < length ms" by simp
    show ?thesis
      unfolding Suc deduction_Suc using Cons.IH [OF j]
      by (simp add: Let_def)
  qed
qed

lemma remaining_step:
  "remainingBefore d ms (Suc i) = remainingBefore d ms i - deductionAt d ms i" if "i < length ms"
proof -
  have "take (Suc i) ms = take i ms @ [ms ! i]"
    using that by (simp add: take_Suc_conv_app_nth)
  then show ?thesis
    using taken_nonneg [of "take i ms"]
    unfolding deductionAt_def remainingBefore_def by (simp add: min_def max_def)
qed

lemma whole_total: "wholeLine m \<Longrightarrow> itemTotalCents m = unit_price m * 100 * quantity m"
  unfolding wholeLine_def itemTotalCents_def by (simp add: round_whole isInteger_mult)

lemma whole_cents: "wholeLine m \<Longrightarrow> lineCents m = unit_price m * 100 * quantity m"
  unfolding wholeLine_def lineCents_def by (simp add: round_whole)

lemma whole_nonneg: "wholeLine m \<Longrightarrow> 0 \<le> lineCents m"
  by (simp add: whole_cents) (simp add: wholeLine_def)






subsection \<open>The transaction\<close>

lemma persist_written:
  "persistItems E k items (tx, tr) = Inr (tx', tr') \<Longrightarrow>
   orders tx' = orders tx \<and> addresses tx' = addresses tx
   \<and> orderItems tx' = orderItems tx @ map (itemRow k) items"
proof (induction items arbitrary: tx tr)
  case Nil
  then show ?case by simp
next
  case (Cons item items)
  show ?case
  proof (cases "p_stockManaged (product item)")
    case True
    with Cons.prems have "persistItems E k items
        (decrementStock (product item) (qty item) (tx\<lparr>orderItems := orderItems tx @ [itemRow k item]\<rparr>),
         (tr @ [OrderItemInsert]) @ [StockDecrement]) = Inr (tx', tr')"
      by (simp add: Let_def split: option.splits)
    from Cons.IH [OF this] show ?thesis by (simp add: decrementStock_def)
  next
    case False
    with Cons.prems have "persistItems E k items
        (tx\<lparr>orderItems := orderItems tx @ [itemRow k item]\<rparr>, tr @ [OrderItemInsert]) = Inr (tx', tr')"
      by (simp add: Let_def split: option.splits)
    from Cons.IH [OF this] show ?thesis by simp
  qed
qed

text \<open>Whether the loop ends or a write throws, it has only inserted order items and
  decremented stock.\<close>

lemma persist_trace:
  "persistItems E k items (tx, tr) = Inr (tx', tr') \<or> persistItems E k items (tx, tr) = Inl (e, tr') \<Longrightarrow>
   \<exists>t. tr' = tr @ t \<and> set t \<subseteq> {OrderItemInsert, StockDecrement}"
proof (induction items arbitrary: tx tr)
  case Nil
  then show ?case by simp
next
  case (Cons item items)
  show ?case
  proof (cases "OrderItem_create_throws E (itemRow k item) tx")
    case (Some e')
    with Cons.prems show ?thesis by simp
  next
    case None
    let ?tx1 = "tx\<lparr>orderItems := orderItems tx @ [itemRow k item]\<rparr>"
    show ?thesis
    proof (cases "p_stockManaged (product item)")
      case False
      with None Cons.prems have "persistItems E k items (?tx1, tr @ [OrderItemInsert]) = Inr (tx', tr')
          \<or> persistItems E k items (?tx1, tr @ [OrderItemInsert]) = Inl (e, tr')"
        by (simp add: Let_def)
      from Cons.IH [OF this] obtain t where "tr' = (tr @ [OrderItemInsert]) @ t"
        "set t \<subseteq> {OrderItemInsert, StockDecrement}" by blast
      then show ?thesis
        by (intro exI [of _ "OrderItemInsert # t"]) simp
    next
      case True
      show ?thesis
      proof (cases "decrement_throws E (product item) (qty item) ?tx1")
        case (Some e')
        with None True Cons.prems have "tr' = tr @ [OrderItemInsert]" by (simp add: Let_def)
        then show ?thesis
          by (intro exI [of _ "[OrderItemInsert]"]) simp
      next
        case dec: None
        with None True Cons.prems have
          "persistItems E k items (decrementStock (product item) (qty item) ?tx1,
              (tr @ [OrderItemInsert]) @ [StockDecrement]) = Inr (tx', tr')
           \<or> persistItems E k items (decrementStock (product item) (qty item) ?tx1,
              (tr @ [OrderItemInsert]) @ [StockDecrement]) = Inl (e, tr')"
          by (simp add: Let_def)
        from Cons.IH [OF this] obtain t where "tr' = ((tr @ [OrderItemInsert]) @ [StockDecrement]) @ t"
          "set t \<subseteq> {OrderItemInsert, StockDecrement}" by blast
        then show ?thesis
          by (intro exI [of _ "OrderItemInsert # StockDecrement # t"]) simp
      qed
    qed
  qed
qed

lemma persist_events:
  assumes "persistItems E k items (tx, trc @ [OrderInsert]) = Inr (tx', tr')
      \<or> persistItems E k items (tx, trc @ [OrderInsert]) = Inl (e, tr')"
    and "set trc \<subseteq> {CouponCall}"
  shows "set tr' \<subseteq> {CouponCall, OrderInsert, OrderItemInsert, StockDecrement}"
  using persist_trace [OF assms(1)] assms(2) by auto

lemma coupon_trace: "set (fst (couponDiscount E code s)) \<subseteq> {CouponCall}"
  by (auto simp: couponDiscount_def split: option.splits sum.splits)

lemma nextOrderId_above: "r \<in> set rows \<Longrightarrow> o_id r < nextOrderId rows"
  unfolding nextOrderId_def by (induction rows) auto

lemma attach_new:
  "o_id row = nextOrderId rows \<Longrightarrow>
   map (\<lambda>r. if o_id r = nextOrderId rows then r\<lparr>mercadoPagoPreferenceId := Some p\<rparr> else r) (rows @ [row])
     = rows @ [row\<lparr>mercadoPagoPreferenceId := Some p\<rparr>]"
proof -
  assume k: "o_id row = nextOrderId rows"
  have "map (\<lambda>r. if o_id r = nextOrderId rows then r\<lparr>mercadoPagoPreferenceId := Some p\<rparr> else r) rows = rows"
    by (rule map_idI) (use nextOrderId_above in fastforce)
  then show ?thesis using k by simp
qed

lemma createOrder_cases:
  obtains
    (incomplete) "ensureFields E (body req) [''items'', ''address_id'', ''shipping''] \<noteq> []"
      "createOrder E store req = (Json_error 400 IncompleteData, [Rollback], store)"
  | (unresolved) e where "ensureFields E (body req) [''items'', ''address_id'', ''shipping''] = []"
      "resolveItems E (products store) (b_items (body req)) = Inl e"
      "createOrder E store req = (Json_error 400 (caughtMessage e), [Rollback], store)"
  | (address) items where "ensureFields E (body req) [''items'', ''address_id'', ''shipping''] = []"
      "resolveItems E (products store) (b_items (body req)) = Inr items"
      "findAddress (addresses store) (b_address_id (body req)) (u_id (user req)) = None"
      "createOrder E store req = (Json_error 404 InvalidAddress, [Rollback], store)"
  | (coupon) items addr trc e where "ensureFields E (body req) [''items'', ''address_id'', ''shipping''] = []"
      "resolveItems E (products store) (b_items (body req)) = Inr items"
      "findAddress (addresses store) (b_address_id (body req)) (u_id (user req)) = Some addr"
      "couponDiscount E (b_coupon_code (body req)) (subtotalOf items) = (trc, Inl e)"
      "createOrder E store req = (Json_error 400 (caughtMessage e), trc @ [Rollback], store)"
  | (refused) items addr trc d e where "ensureFields E (body req) [''items'', ''address_id'', ''shipping''] = []"
      "resolveItems E (products store) (b_items (body req)) = Inr items"
      "findAddress (addresses store) (b_address_id (body req)) (u_id (user req)) = Some addr"
      "couponDiscount E (b_coupon_code (body req)) (subtotalOf items) = (trc, Inr d)"
      "createOrder E store req = (Json_error 400 (caughtMessage e), trc @ [Rollback], store)"
  | (placed) items addr trc d row where "ensureFields E (body req) [''items'', ''address_id'', ''shipping''] = []"
      "resolveItems E (products store) (b_items (body req)) = Inr items"
      "findAddress (addresses store) (b_address_id (body req)) (u_id (user req)) = Some addr"
      "couponDiscount E (b_coupon_code (body req)) (subtotalOf items) = (trc, Inr d)"
      "row = orderRow (nextOrderId (orders store)) (user req) addr (selectionOf (body req))
               (subtotalOf items) (shippingCentsOf (selectionOf (body req))) d
               (totalOf (subtotalOf items) (shippingCentsOf (selectionOf (body req))) d)"
      "createOrder E store req =
         (case persistItems E (nextOrderId (orders store)) items
                 (store\<lparr>orders := orders store @ [row]\<rparr>, trc @ [OrderInsert]) of
            Inl (e, tr2) \<Rightarrow> (Json_error 400 (caughtMessage e), tr2 @ [Rollback], store)
          | Inr (tx2, tr2) \<Rightarrow>
              (case createPreference E (paymentLines items (selectionOf (body req)) d) (user req) of
                 Inl e \<Rightarrow> (Json_error 400 (caughtMessage e),
                            tr2 @ [PaymentCall (paymentLines items (selectionOf (body req)) d), Rollback], store)
               | Inr pref \<Rightarrow>
                   (case order_update_throws E (nextOrderId (orders store)) (preferenceId pref) tx2 of
                      Some e \<Rightarrow> (Json_error 400 (caughtMessage e),
                            tr2 @ [PaymentCall (paymentLines items (selectionOf (body req)) d), Rollback], store)
                    | None \<Rightarrow> (Json_created (nextOrderId (orders store)) (preferenceId pref) (initPoint pref),
                            tr2 @ [PaymentCall (paymentLines items (selectionOf (body req)) d), OrderUpdate, Commit],
                            attachPreference (nextOrderId (orders store)) (preferenceId pref) tx2))))"
proof (cases "ensureFields E (body req) [''items'', ''address_id'', ''shipping''] = []")
  case False
  then show thesis using incomplete by (simp add: createOrder_def)
next
  case fields: True
  show thesis
  proof (cases "resolveItems E (products store) (b_items (body req))")
    case (Inl e)
    then show thesis using fields unresolved by (simp add: createOrder_def)
  next
    case (Inr items)
    show thesis
    proof (cases "findAddress (addresses store) (b_address_id (body req)) (u_id (user req))")
      case None
      then show thesis using fields Inr address by (simp add: createOrder_def)
    next
      case (Some addr)
      obtain trc res where c: "couponDiscount E (b_coupon_code (body req)) (subtotalOf items) = (trc, res)"
        by (cases "couponDiscount E (b_coupon_code (body req)) (subtotalOf items)")
      show thesis
      proof (cases res)
        case (Inl e)
        then show thesis using fields Inr Some c coupon by (simp add: createOrder_def)
      next
        case d: (Inr d)
        let ?row = "orderRow (nextOrderId (orders store)) (user req) addr (selectionOf (body req))
               (subtotalOf items) (shippingCentsOf (selectionOf (body req))) d
               (totalOf (subtotalOf items) (shippingCentsOf (selectionOf (body req))) d)"
        show thesis
        proof (cases "Order_create_throws E ?row store")
          case (Some e)
          show thesis
            by (rule refused [OF fields Inr \<open>findAddress _ _ _ = Some addr\<close> c [unfolded d]])
              (simp add: createOrder_def fields Inr \<open>findAddress _ _ _ = Some addr\<close> c d Let_def Some)
        next
          case None
          show thesis
            by (rule placed [OF fields Inr \<open>findAddress _ _ _ = Some addr\<close> c [unfolded d] refl])
              (simp add: createOrder_def fields Inr \<open>findAddress _ _ _ = Some addr\<close> c d Let_def None
                split: sum.splits prod.splits option.splits)
        qed
      qed
    qed
  qed
qed

lemma resolveItems_nonempty: "resolveItems E ps raw = Inr items \<Longrightarrow> items \<noteq> []"
  by (auto simp: resolveItems_def split: raw_items.splits if_splits sum.splits)

lemma isInteger_0: "isInteger 0"
  by (simp add: isInteger_def)

lemma isInteger_max0: "isInteger x \<Longrightarrow> isInteger (max 0 x)"
  by (simp add: max_def isInteger_0)

lemma isInteger_sum_list: "list_all (\<lambda>x. isInteger (f x)) xs \<Longrightarrow> isInteger (\<Sum>x\<leftarrow>xs. f x)"
  by (induction xs) (simp_all add: isInteger_0 isInteger_add)

lemma subtotalOf_sum: "subtotalOf items = (\<Sum>item\<leftarrow>items. unit_price_cents item * qty item)"
  unfolding subtotalOf_def by (simp add: foldl_sum)

text \<open>What a successful run leaves in the store and in the trace.\<close>

lemma createOrder_created:
  assumes "createOrder E store req = (Json_created k pid ip, tr, store')"
  obtains items addr trc d pref tr' where
    "resolveItems E (products store) (b_items (body req)) = Inr items"
    "findAddress (addresses store) (b_address_id (body req)) (u_id (user req)) = Some addr"
    "couponDiscount E (b_coupon_code (body req)) (subtotalOf items) = (trc, Inr d)"
    "createPreference E (paymentLines items (selectionOf (body req)) d) (user req) = Inr pref"
    "k = nextOrderId (orders store)" "pid = preferenceId pref" "ip = initPoint pref"
    "orders store' = orders store @
       [(orderRow k (user req) addr (selectionOf (body req)) (subtotalOf items)
          (shippingCentsOf (selectionOf (body req))) d
          (totalOf (subtotalOf items) (shippingCentsOf (selectionOf (body req))) d))
        \<lparr>mercadoPagoPreferenceId := Some pid\<rparr>]"
    "orderItems store' = orderItems store @ map (itemRow k) items"
    "addresses store' = addresses store"
    "tr = trc @ [OrderInsert] @ tr' @ [PaymentCall (paymentLines items (selectionOf (body req)) d), OrderUpdate, Commit]"
    "set tr' \<subseteq> {OrderItemInsert, StockDecrement}"
proof (cases rule: createOrder_cases [where E = E and store = store and req = req])
  case incomplete
  with assms show ?thesis by simp
next
  case (unresolved e)
  with assms show ?thesis by simp
next
  case (address items)
  with assms show ?thesis by simp
next
  case (coupon items addr trc e)
  with assms show ?thesis by simp
next
  case (refused items addr trc d e)
  with assms show ?thesis by simp
next
  case (placed items addr trc d row)
  let ?L = "paymentLines items (selectionOf (body req)) d"
  from placed(6) assms obtain tx2 tr2 pref where
    st: "persistItems E (nextOrderId (orders store)) items
           (store\<lparr>orders := orders store @ [row]\<rparr>, trc @ [OrderInsert]) = Inr (tx2, tr2)"
    and pref: "createPreference E ?L (user req) = Inr pref"
    and k: "k = nextOrderId (orders store)" and pid: "pid = preferenceId pref" and ip: "ip = initPoint pref"
    and tr: "tr = tr2 @ [PaymentCall ?L, OrderUpdate, Commit]"
    and st': "store' = attachPreference (nextOrderId (orders store)) (preferenceId pref) tx2"
    by (auto split: sum.splits prod.splits option.splits)
  obtain tr' where tr': "tr2 = (trc @ [OrderInsert]) @ tr'" "set tr' \<subseteq> {OrderItemInsert, StockDecrement}"
    using persist_trace [of E "nextOrderId (orders store)" items _ _ tx2 tr2] st by blast
  note w = persist_written [OF st]
  have row_id: "o_id row = nextOrderId (orders store)"
    unfolding placed(5) by (simp add: orderRow_def)
  have "orders store' =
      map (\<lambda>r. if o_id r = nextOrderId (orders store)
                then r\<lparr>mercadoPagoPreferenceId := Some pid\<rparr> else r) (orders store @ [row])"
    unfolding st' attachPreference_def pid
    by (simp add: w del: map_append)
  then have o: "orders store' = orders store @ [row\<lparr>mercadoPagoPreferenceId := Some pid\<rparr>]"
    by (simp only: attach_new [OF row_id])
  have oi: "orderItems store' = orderItems store @ map (itemRow k) items"
    unfolding st' attachPreference_def k by (simp add: w)
  have ad: "addresses store' = addresses store"
    unfolding st' attachPreference_def by (simp add: w)
  show ?thesis
    by (rule that [OF placed(2) placed(3) placed(4) pref k pid ip _ oi ad _ tr'(2)])
      (simp_all add: o placed(5) k tr tr'(1))
qed

subsection \<open>Runs of the shop\<close>

lemma demo_run:
  "createOrder demoEnv demoStore (demoRequest [demoLine ''A'' 2 1000] 7 500 (Some ''OFF'')) =
    (Json_created 1 ''pref-1'' ''https://pay'',
     [CouponCall, CouponCall, OrderInsert, OrderItemInsert, StockDecrement,
      PaymentCall
       [\<lparr>title = ''Stack'', quantity = 2, currency_id = ''BRL'', unit_price = 17 / 2\<rparr>,
        \<lparr>title = ''Frete'', quantity = 1, currency_id = ''BRL'', unit_price = 5\<rparr>],
      OrderUpdate, Commit],
     \<lparr>products = [demoProduct\<lparr>p_stockQuantity := 48\<rparr>, demoRetired],
      addresses = [\<lparr>a_id = 7, a_userId = 1\<rparr>, \<lparr>a_id = 8, a_userId = 2\<rparr>],
      orders =
        [\<lparr>o_id = 1, o_userId = 1, o_addressId = 7, subtotalCents = 2000,
           shippingCents = 500, discountCents = 300, totalCents = 2200,
           shippingCarrier = None, shippingService = None, shippingEstimateDays = None,
           mercadoPagoPreferenceId = Some ''pref-1''\<rparr>],
      orderItems =
        [\<lparr>oi_orderId = 1, oi_productId = 1, oi_title = ''Stack'', oi_sku = ''A'',
           oi_quantity = 2, oi_unitPriceCents = 1000, oi_weightGrams = 200\<rparr>]\<rparr>)"
  by code_simp

lemma demo_items:
  "resolveItems demoEnv (products demoStore) (ItemArray [Some (demoLine ''A'' 2 1000)]) = Inr [demoItem 2 1000]"
  by code_simp


subsection \<open>The lines sent to the gateway\<close>

lemma createOrder_payment:
  assumes "PaymentCall ls \<in> set (fst (snd (createOrder E store req)))"
  obtains items trc d where
    "resolveItems E (products store) (b_items (body req)) = Inr items"
    "couponDiscount E (b_coupon_code (body req)) (subtotalOf items) = (trc, Inr d)"
    "ls = paymentLines items (selectionOf (body req)) d"
proof (cases rule: createOrder_cases [where E = E and store = store and req = req])
  case incomplete
  with assms show ?thesis by simp
next
  case (unresolved e)
  with assms show ?thesis by simp
next
  case (address items)
  with assms show ?thesis by simp
next
  case (coupon items addr trc e)
  with assms coupon_trace [of E "b_coupon_code (body req)" "subtotalOf items"]
  show ?thesis by auto
next
  case (refused items addr trc d e)
  with assms coupon_trace [of E "b_coupon_code (body req)" "subtotalOf items"]
  show ?thesis by auto
next
  case (placed items addr trc d row)
  have c: "set trc \<subseteq> {CouponCall}"
    using coupon_trace [of E "b_coupon_code (body req)" "subtotalOf items"] placed(4) by simp
  have "PaymentCall ls \<notin> set tr2"
    if "persistItems E (nextOrderId (orders store)) items
           (store\<lparr>orders := orders store @ [row]\<rparr>, trc @ [OrderInsert]) = Inr (tx2, tr2)
        \<or> persistItems E (nextOrderId (orders store)) items
           (store\<lparr>orders := orders store @ [row]\<rparr>, trc @ [OrderInsert]) = Inl (e, tr2)" for tx2 tr2 e
    using persist_trace [OF that] c by auto
  with assms placed(6) have "ls = paymentLines items (selectionOf (body req)) d"
    by (auto split: sum.splits prod.splits option.splits)
  then show ?thesis using placed(2,4) that by blast
qed

lemma applyDiscount_floor:
  "list_all2 (\<lambda>m m'. min 0 (unit_price m) \<le> unit_price m') ms (applyDiscount d ms)"
  unfolding applyDiscount_def by (simp add: allocate_floor list_all2_same)

lemma floor_keeps_nonneg:
  "list_all2 (\<lambda>m m'. min 0 (unit_price m) \<le> unit_price m') ms ms' \<Longrightarrow>
   list_all (\<lambda>m. 0 \<le> unit_price m) ms \<Longrightarrow> list_all (\<lambda>m. 0 \<le> unit_price m) ms'"
  by (induction rule: list_all2_induct) simp_all



lemma applyDiscount_pos: "0 < d \<Longrightarrow> applyDiscount d ms = allocate d ms"
  unfolding applyDiscount_def by (cases ms) simp_all

lemma built_whole:
  assumes "list_all wholeItem items" "isInteger sh" "0 \<le> sh"
  shows "list_all wholeLine (buildMpItems items sel sh)"
proof -
  have "wholeLine (itemLine item)" if "wholeItem item" for item
    using that by (simp add: wholeItem_def wholeLine_def itemLine_def)
  moreover have "wholeLine (shippingLine sel sh)"
    using assms(2,3) by (simp add: wholeLine_def shippingLine_def isInteger_def)
  ultimately show ?thesis
    using assms(1) by (auto simp: buildMpItems_def list_all_iff)
qed



subsection \<open>The greedy allocation\<close>

lemma remaining_0: "0 \<le> d \<Longrightarrow> remainingBefore d ms 0 = d"
  unfolding remainingBefore_def by simp

lemma remaining_nonneg: "0 \<le> remainingBefore d ms i"
  unfolding remainingBefore_def by simp

lemma deduction_alt:
  "deductionAt d ms i =
     (if 0 < itemTotalCents (ms ! i) then min (itemTotalCents (ms ! i)) (remainingBefore d ms i) else 0)"
  using remaining_nonneg [of d ms i] unfolding deductionAt_def by (simp add: max_def min_def)

lemma scenario_lines:
  "buildMpItems [demoItem 2 1000] (demoShipping 500) (shippingCentsOf (demoShipping 500)) =
     [\<lparr>title = ''Stack'', quantity = 2, currency_id = ''BRL'', unit_price = 10\<rparr>,
      \<lparr>title = ''Frete'', quantity = 1, currency_id = ''BRL'', unit_price = 5\<rparr>]"
  by code_simp

lemma fractional_lines:
  "paymentLines [demoItem 10 (104 / 10)] emptySelection 9 =
     [\<lparr>title = ''Stack'', quantity = 10, currency_id = ''BRL'', unit_price = 1 / 10\<rparr>]"
  "specAllocate 9 (buildMpItems [demoItem 10 (104 / 10)] emptySelection (shippingCentsOf emptySelection)) =
     [\<lparr>title = ''Stack'', quantity = 10, currency_id = ''BRL'', unit_price = 9 / 100\<rparr>]"
  by code_simp+

text \<open>On whole data the two subtotals agree, and so do the two allocations.\<close>

lemma specAllocate_zero: "list_all wholeLine ms \<Longrightarrow> specAllocate 0 ms = ms"
proof (induction ms)
  case Nil
  then show ?case by simp
next
  case (Cons m ms)
  then have w: "wholeLine m" and IH: "specAllocate 0 ms = ms" by simp_all
  have "lineCents m / quantity m = unit_price m * 100"
    using w by (simp add: whole_cents) (simp add: wholeLine_def)
  moreover have "Math_round (unit_price m * 100) = unit_price m * 100"
    using w by (simp add: wholeLine_def round_whole)
  moreover have "0 \<le> lineCents m" "0 \<le> unit_price m"
    using w whole_nonneg by (simp_all add: wholeLine_def)
  ultimately show ?case
    using IH by (simp add: Let_def min_def max_def)
qed

lemma specAllocate_whole:
  "list_all wholeLine ms \<Longrightarrow> 0 \<le> d \<Longrightarrow> specAllocate d ms = allocate d ms"
proof (induction ms arbitrary: d)
  case Nil
  then show ?case by simp
next
  case (Cons m ms)
  then have w: "wholeLine m" and ws: "list_all wholeLine ms" by simp_all
  have T: "lineCents m = itemTotalCents m"
    using w by (simp add: whole_cents whole_total)
  show ?case
  proof (cases "d = 0")
    case True
    then show ?thesis
      using specAllocate_zero [OF Cons.prems(1)] by (simp add: allocate_nonpos)
  next
    case False
    with Cons.prems(2) have d: "0 < d" by simp
    have "0 \<le> d - min (itemTotalCents m) d" by simp
    from Cons.IH [OF ws this] Cons.IH [OF ws Cons.prems(2)] show ?thesis
      using d T by (simp add: Let_def)
  qed
qed

text \<open>The allocation of the model in closed form, for any lines.\<close>

lemma paymentLines_nth:
  assumes "0 < d" and "ms = buildMpItems items sel (shippingCentsOf sel)" and "i < length ms"
  shows "ms = map itemLine items
              @ (if 0 < shippingCentsOf sel then [shippingLine sel (shippingCentsOf sel)] else [])
     \<and> length (paymentLines items sel d) = length ms
     \<and> remainingBefore d ms 0 = d
     \<and> deductionAt d ms i =
          (if 0 < itemTotalCents (ms ! i)
           then min (itemTotalCents (ms ! i)) (remainingBefore d ms i) else 0)
     \<and> remainingBefore d ms (Suc i) = remainingBefore d ms i - deductionAt d ms i
     \<and> paymentLines items sel d ! i =
          (if 0 < deductionAt d ms i
           then (ms ! i)\<lparr>unit_price :=
                  max 0 (Math_round ((itemTotalCents (ms ! i) - deductionAt d ms i) / quantity (ms ! i)) / 100)\<rparr>
           else ms ! i)
     \<and> (remainingBefore d ms i = 0 \<longrightarrow> paymentLines items sel d ! i = ms ! i)"
proof -
  have p: "paymentLines items sel d = allocate d ms"
    unfolding paymentLines_def assms(2) using assms(1) by (rule applyDiscount_pos)
  have nth: "allocate d ms ! i =
          (if 0 < deductionAt d ms i
           then (ms ! i)\<lparr>unit_price :=
                  max 0 (Math_round ((itemTotalCents (ms ! i) - deductionAt d ms i) / quantity (ms ! i)) / 100)\<rparr>
           else ms ! i)"
    using assms(3) by (rule allocate_nth)
  have z: "deductionAt d ms i = 0" if "remainingBefore d ms i = 0"
    using that by (simp add: deduction_alt)
  have r0: "remainingBefore d ms 0 = d"
    using assms(1) by (simp add: remaining_0)
  show ?thesis
    unfolding p using nth z r0 remaining_step [OF assms(3)] deduction_alt [of d ms i]
    by (simp add: length_allocate assms(2) buildMpItems_def)
qed


subsection \<open>The resolver\<close>

lemma resolveLine_skip: "\<not> usableQty E item \<Longrightarrow> resolveLine E ps item = Inr None"
  by (auto simp: usableQty_def resolveLine_def split: option.splits)

lemma resolveLine_usable:
  "usableQty E item \<Longrightarrow> resolveLine E ps item \<noteq> Inr None"
  by (auto simp: usableQty_def resolveLine_def split: option.splits)

lemma resolveLine_item:
  "resolveLine E ps item = Inr (Some r) \<Longrightarrow> line_qty E item = Some (qty r) \<and> 0 < qty r"
  by (auto simp: resolveLine_def split: option.splits if_splits)

lemma resolveLine_error:
  "resolveLine E ps item = Inl e \<Longrightarrow>
     usableQty E item \<and> (e = ProductNotFound (line_ref item) \<or> (\<exists>n. e = InsufficientStock n))"
  by (auto simp: usableQty_def resolveLine_def split: option.splits if_splits)

lemma resolveElement_skip: "skipped E el \<Longrightarrow> resolveElement E ps el = Inr None"
  by (auto simp: skipped_def resolveElement_def resolveLine_skip split: option.splits)

lemma resolveElement_None: "resolveElement E ps el = Inr None \<Longrightarrow> skipped E el"
  using resolveLine_usable [of E _ ps]
  by (auto simp: skipped_def resolveElement_def split: option.splits)

lemma resolveElement_item:
  "resolveElement E ps el = Inr (Some r) \<Longrightarrow> 0 < qty r"
  using resolveLine_item [of E ps _ r]
  by (auto simp: resolveElement_def split: option.splits)

lemma resolveElement_error:
  "resolveElement E ps el = Inl e \<Longrightarrow>
     e = TypeError \<and> el = None \<or> (\<exists>r. e = ProductNotFound r) \<or> (\<exists>n. e = InsufficientStock n)"
  using resolveLine_error [of E ps _ e]
  by (auto simp: resolveElement_def split: option.splits)

lemma resolveLoop_skip:
  "list_all (skipped E) ls \<Longrightarrow> resolveLoop E ps ls acc = Inr acc"
  by (induction ls arbitrary: acc) (simp_all add: resolveElement_skip)

lemma resolveLoop_grows:
  "resolveLoop E ps ls acc = Inr items \<Longrightarrow> \<exists>new. items = acc @ new"
proof (induction ls arbitrary: acc)
  case Nil
  then show ?case by simp
next
  case (Cons el ls)
  then show ?case
    by (cases "resolveElement E ps el") (fastforce split: option.splits)+
qed

lemma resolveLoop_empty:
  "resolveLoop E ps ls acc = Inr [] \<Longrightarrow> list_all (skipped E) ls"
proof (induction ls arbitrary: acc)
  case Nil
  then show ?case by simp
next
  case (Cons el ls)
  show ?case
  proof (cases "resolveElement E ps el")
    case (Inl e)
    with Cons.prems show ?thesis by simp
  next
    case (Inr r)
    show ?thesis
    proof (cases r)
      case None
      with Inr Cons show ?thesis
        using resolveElement_None [of E ps el] by auto
    next
      case (Some x)
      with Inr Cons.prems have "resolveLoop E ps ls (acc @ [x]) = Inr []" by simp
      from resolveLoop_grows [OF this] show ?thesis by simp
    qed
  qed
qed

lemma resolveLoop_error:
  "resolveLoop E ps ls acc = Inl e \<Longrightarrow> e \<noteq> InvalidItems"
proof (induction ls arbitrary: acc)
  case Nil
  then show ?case by simp
next
  case (Cons el ls)
  then show ?case
    using resolveElement_error [of E ps el]
    by (cases "resolveElement E ps el") (auto split: option.splits)
qed

lemma resolveLoop_qty:
  "resolveLoop E ps ls acc = Inr items \<Longrightarrow> list_all (\<lambda>r. 0 < qty r) acc \<Longrightarrow> list_all (\<lambda>r. 0 < qty r) items"
proof (induction ls arbitrary: acc)
  case Nil
  then show ?case by simp
next
  case (Cons el ls)
  then show ?case
    using resolveElement_item [of E ps el]
    by (cases "resolveElement E ps el") (auto split: option.splits)
qed

lemma resolveItems_invalid:
  "resolveItems E ps raw = Inl InvalidItems \<longleftrightarrow>
     (case raw of ItemArray ls \<Rightarrow> ls = [] \<or> list_all (skipped E) ls | _ \<Rightarrow> True)"
proof (cases raw)
  case (ItemArray ls)
  show ?thesis
  proof (cases "resolveLoop E ps ls []")
    case (Inl e)
    then have "\<not> list_all (skipped E) ls"
      using resolveLoop_skip [of E ls ps "[]"] by auto
    moreover have "ls \<noteq> []" using Inl by auto
    ultimately show ?thesis
      using Inl resolveLoop_error [OF Inl] by (simp add: ItemArray resolveItems_def)
  next
    case (Inr items)
    then show ?thesis
      using resolveLoop_empty [of E ps ls "[]"] resolveLoop_skip [of E ls ps "[]"]
      by (auto simp: ItemArray resolveItems_def)
  qed
qed (simp_all add: resolveItems_def)

lemma resolveLoop_append:
  "list_all (\<lambda>el. \<not> lineFails E ps el) pre \<Longrightarrow>
   \<exists>acc'. resolveLoop E ps (pre @ rest) acc = resolveLoop E ps rest acc'"
proof (induction pre arbitrary: acc)
  case Nil
  then show ?case by auto
next
  case (Cons el pre)
  then show ?case
    by (cases "resolveElement E ps el") (auto simp: lineFails_def split: option.splits)
qed

lemma resolveItems_first_error:
  assumes "list_all (\<lambda>el. \<not> lineFails E ps el) pre" "resolveElement E ps el = Inl e"
  shows "resolveItems E ps (ItemArray (pre @ el # post)) = Inl e"
proof -
  obtain acc' where "resolveLoop E ps (pre @ el # post) [] = resolveLoop E ps (el # post) acc'"
    using resolveLoop_append [OF assms(1)] by blast
  then have "resolveLoop E ps (pre @ el # post) [] = Inl e"
    using assms(2) by simp
  then show ?thesis by (simp add: resolveItems_def)
qed

lemma caughtMessage_own:
  "e = ProductNotFound r \<or> e = InsufficientStock n \<or> e = InvalidItems \<Longrightarrow> caughtMessage e = e"
  by (auto simp: caughtMessage_def)

lemma createOrder_unresolved:
  assumes "resolveItems E (products store) (b_items (body req)) = Inl e"
  shows "createOrder E store req =
     (Json_error 400 (if ensureFields E (body req) [''items'', ''address_id'', ''shipping''] \<noteq> []
                      then IncompleteData else caughtMessage e), [Rollback], store)"
  using assms by (simp add: createOrder_def)

lemma resolveItems_some_error:
  assumes "list_ex (lineFails E ps) ls"
  shows "\<exists>e. resolveItems E ps (ItemArray ls) = Inl e
          \<and> (e = TypeError \<and> None \<in> set ls \<or> (\<exists>r. e = ProductNotFound r) \<or> (\<exists>n. e = InsufficientStock n))"
proof -
  from assms have "\<exists>l\<in>set ls. lineFails E ps l"
    by (simp add: list_ex_iff)
  then obtain pre el post where
    ls: "ls = pre @ el # post" and el: "lineFails E ps el"
    and pre: "\<forall>l\<in>set pre. \<not> lineFails E ps l"
    using split_list_first_prop [of ls "lineFails E ps"] by blast
  from el obtain e where e: "resolveElement E ps el = Inl e"
    by (auto simp: lineFails_def split: sum.splits)
  have "resolveItems E ps (ItemArray ls) = Inl e"
    unfolding ls by (rule resolveItems_first_error [OF _ e]) (use pre in \<open>simp add: list_all_iff\<close>)
  with resolveElement_error [OF e] ls show ?thesis by auto
qed

lemma resolveItems_null:
  assumes "None \<in> set ls" "list_all (noUsableQty E) ls"
  shows "resolveItems E ps (ItemArray ls) = Inl TypeError"
proof -
  from assms(1) have "\<exists>l\<in>set ls. l = None" by simp
  then obtain pre el post where
    ls: "ls = pre @ el # post" and el: "el = None" and pre: "\<forall>l\<in>set pre. l \<noteq> None"
    using split_list_first_prop [of ls "\<lambda>l. l = None"] by blast
  have "\<not> lineFails E ps l" if "l \<in> set pre" for l
  proof -
    from that pre assms(2) ls have "skipped E l"
      by (auto simp: list_all_iff noUsableQty_def skipped_def split: option.splits)
    then show ?thesis
      by (simp add: lineFails_def resolveElement_skip)
  qed
  then have "list_all (\<lambda>l. \<not> lineFails E ps l) pre"
    by (simp add: list_all_iff)
  then show ?thesis
    unfolding ls el by (rule resolveItems_first_error) (simp add: resolveElement_def)
qed

subsection \<open>The delivery address\<close>

lemma findAddress_foreign:
  assumes "a \<in> set rows" "a_userId a \<noteq> uid" "distinct (map a_id rows)"
  shows "findAddress rows (Some (a_id a)) uid = None"
proof -
  have "x = a" if "x \<in> set rows" "a_id x = a_id a" for x
    using that assms(1,3) by (meson distinct_map inj_onD)
  then have "\<not> (\<exists>x. x \<in> set rows \<and> (a_id x = a_id a \<and> a_userId x = uid))"
    using assms(2) by blast
  then show ?thesis
    by (simp add: findAddress_def find_None_iff)
qed

lemma createOrder_no_address:
  assumes "findAddress (addresses store) (b_address_id (body req)) (u_id (user req)) = None"
  shows "snd (snd (createOrder E store req)) = store
     \<and> (\<exists>code e. fst (createOrder E store req) = Json_error code e)"
  using assms by (cases rule: createOrder_cases [where E = E and store = store and req = req]) simp_all


subsection \<open>Failed runs\<close>

lemma createOrder_error:
  assumes "createOrder E store req = (Json_error code e, tr, store')"
  shows "store' = store \<and> tr \<noteq> [] \<and> last tr = Rollback \<and> Commit \<notin> set tr \<and> OrderUpdate \<notin> set tr"
proof (cases rule: createOrder_cases [where E = E and store = store and req = req])
  case incomplete
  with assms show ?thesis by auto
next
  case (unresolved e)
  with assms show ?thesis by auto
next
  case (address items)
  with assms show ?thesis by auto
next
  case (coupon items addr trc e)
  with assms coupon_trace [of E "b_coupon_code (body req)" "subtotalOf items"]
  show ?thesis by auto
next
  case (refused items addr trc d e)
  with assms coupon_trace [of E "b_coupon_code (body req)" "subtotalOf items"]
  show ?thesis by auto
next
  case (placed items addr trc d row)
  have c: "set trc \<subseteq> {CouponCall}"
    using coupon_trace [of E "b_coupon_code (body req)" "subtotalOf items"] placed(4) by simp
  have "Commit \<notin> set tr2 \<and> OrderUpdate \<notin> set tr2"
    if "persistItems E (nextOrderId (orders store)) items
           (store\<lparr>orders := orders store @ [row]\<rparr>, trc @ [OrderInsert]) = Inr (tx2, tr2)
        \<or> persistItems E (nextOrderId (orders store)) items
           (store\<lparr>orders := orders store @ [row]\<rparr>, trc @ [OrderInsert]) = Inl (e, tr2)" for tx2 tr2 e
    using persist_trace [OF that] c by auto
  with assms placed(6) show ?thesis
    by (auto split: sum.splits prod.splits option.splits)
qed

lemma createOrder_response:
  "(\<exists>code e. fst (createOrder E store req) = Json_error code e)
   \<or> (\<exists>k pid ip. fst (createOrder E store req) = Json_created k pid ip)"
  by (cases rule: createOrder_cases [where E = E and store = store and req = req])
    (auto split: sum.splits prod.splits option.splits)

lemma demo_down:
  "createOrder demoEnvNoGateway demoStore (demoRequest [demoLine ''A'' 2 1000] 7 500 (Some ''OFF'')) =
    (Json_error 400 (External ''gateway down''),
     [CouponCall, CouponCall, OrderInsert, OrderItemInsert, StockDecrement,
      PaymentCall
       [\<lparr>title = ''Stack'', quantity = 2, currency_id = ''BRL'', unit_price = 17 / 2\<rparr>,
        \<lparr>title = ''Frete'', quantity = 1, currency_id = ''BRL'', unit_price = 5\<rparr>],
      Rollback],
     demoStore)"
  by code_simp

lemma demo_locked:
  "createOrder demoEnvNoDecrement demoStore (demoRequest [demoLine ''A'' 2 1000] 7 500 (Some ''OFF'')) =
    (Json_error 400 (External ''locked''),
     [CouponCall, CouponCall, OrderInsert, OrderItemInsert, Rollback],
     demoStore)"
  by code_simp

section \<open>Order totals\<close>

text \<open>
  Claim C1, as stated, has the subtotal and the grand total in whole minor units for every
  cart the resolver accepts. The resolver accepts a quantity that is not whole (and a
  price override that is not): one and a half units at 1001 are resolved, and the order
  row is written with the subtotal 1501.5.
\<close>

theorem createOrder_totals_counterexample:
  "resolveItems demoEnv (products demoStore)
      (b_items (body (demoRequest [demoLine ''A'' (3 / 2) 1001] 7 500 None)))
     = Inr [demoItem (3 / 2) 1001]
   \<and> fst (createOrder demoEnv demoStore (demoRequest [demoLine ''A'' (3 / 2) 1001] 7 500 None))
     = Json_created 1 ''pref-1'' ''https://pay''
   \<and> subtotalCents (last (orders (snd (snd (createOrder demoEnv demoStore
        (demoRequest [demoLine ''A'' (3 / 2) 1001] 7 500 None)))))) = 3003 / 2
   \<and> \<not> isInteger (3003 / 2)"
  by code_simp

text \<open>
  Claim C1, amended. For every valid cart (the resolver returned a non-empty list) whose
  unit prices and quantities are whole, with a whole shipping cost and a whole discount,
  the amounts staying within \<open>2 ^ 53\<close> (where the doubles of the code are exact), the
  order row that \<^verbatim>\<open>createOrder\<close> writes carries
  subtotal = sum over the resolved items of unit price in cents times quantity, and
  grand total = max(0, subtotal + shipping - discount), both whole numbers of minor units.
  The discount is the one the coupon service returned (0 without a coupon code), and the
  shipping cost and the discount are written as they came.
\<close>

theorem createOrder_totals:
  assumes "createOrder E store req = (Json_created k pid ip, tr, store')"
  shows "\<exists>items d.
     resolveItems E (products store) (b_items (body req)) = Inr items \<and> items \<noteq> []
     \<and> snd (couponDiscount E (b_coupon_code (body req)) (subtotalOf items)) = Inr d
     \<and> o_id (last (orders store')) = k
     \<and> shippingCents (last (orders store')) = shippingCentsOf (selectionOf (body req))
     \<and> discountCents (last (orders store')) = d
     \<and> (exactTotals items (shippingCentsOf (selectionOf (body req))) d \<longrightarrow>
          subtotalCents (last (orders store')) = (\<Sum>item\<leftarrow>items. unit_price_cents item * qty item)
          \<and> totalCents (last (orders store')) =
                max 0 ((\<Sum>item\<leftarrow>items. unit_price_cents item * qty item)
                       + shippingCentsOf (selectionOf (body req)) - d)
          \<and> isInteger (subtotalCents (last (orders store')))
          \<and> isInteger (totalCents (last (orders store'))))"
proof -
  from assms obtain items addr trc d pref tr' where
    items: "resolveItems E (products store) (b_items (body req)) = Inr items"
    and d: "couponDiscount E (b_coupon_code (body req)) (subtotalOf items) = (trc, Inr d)"
    and o: "orders store' = orders store @
       [(orderRow k (user req) addr (selectionOf (body req)) (subtotalOf items)
          (shippingCentsOf (selectionOf (body req))) d
          (totalOf (subtotalOf items) (shippingCentsOf (selectionOf (body req))) d))
        \<lparr>mercadoPagoPreferenceId := Some pid\<rparr>]"
    by (rule createOrder_created)
  have whole: "isInteger (\<Sum>item\<leftarrow>items. unit_price_cents item * qty item)"
    if "exactTotals items (shippingCentsOf (selectionOf (body req))) d"
    by (rule isInteger_sum_list) (use that in \<open>auto simp: exactTotals_def list_all_iff isInteger_mult\<close>)
  let ?P = "\<lambda>items d.
     resolveItems E (products store) (b_items (body req)) = Inr items \<and> items \<noteq> []
     \<and> snd (couponDiscount E (b_coupon_code (body req)) (subtotalOf items)) = Inr d
     \<and> o_id (last (orders store')) = k
     \<and> shippingCents (last (orders store')) = shippingCentsOf (selectionOf (body req))
     \<and> discountCents (last (orders store')) = d
     \<and> (exactTotals items (shippingCentsOf (selectionOf (body req))) d \<longrightarrow>
          subtotalCents (last (orders store')) = (\<Sum>item\<leftarrow>items. unit_price_cents item * qty item)
          \<and> totalCents (last (orders store')) =
                max 0 ((\<Sum>item\<leftarrow>items. unit_price_cents item * qty item)
                       + shippingCentsOf (selectionOf (body req)) - d)
          \<and> isInteger (subtotalCents (last (orders store')))
          \<and> isInteger (totalCents (last (orders store'))))"
  have "?P items d"
    using items d whole
    by (auto simp: o orderRow_def totalOf_def subtotalOf_sum resolveItems_nonempty exactTotals_def
        isInteger_max0 isInteger_add isInteger_diff)
  then show ?thesis by (intro exI)
qed

text \<open>The cart of the specification's scenario: two units at 1000, shipping 500,
  discount 300.\<close>

theorem createOrder_totals_witness:
  "exactTotals [demoItem 2 1000] 500 300
   \<and> subtotalCents (last (orders (snd (snd (createOrder demoEnv demoStore
       (demoRequest [demoLine ''A'' 2 1000] 7 500 (Some ''OFF''))))))) = 2 * 1000
   \<and> totalCents (last (orders (snd (snd (createOrder demoEnv demoStore
       (demoRequest [demoLine ''A'' 2 1000] 7 500 (Some ''OFF''))))))) = max 0 (2 * 1000 + 500 - 300)"
proof -
  let ?req = "demoRequest [demoLine ''A'' 2 1000] 7 500 (Some ''OFF'')"
  have x: "exactTotals [demoItem 2 1000] 500 300"
    by code_simp
  from createOrder_totals [OF demo_run] obtain items d where
    f: "resolveItems demoEnv (products demoStore) (b_items (body ?req)) = Inr items"
       "snd (couponDiscount demoEnv (b_coupon_code (body ?req)) (subtotalOf items)) = Inr d"
    and t: "exactTotals items (shippingCentsOf (selectionOf (body ?req))) d \<longrightarrow>
          subtotalCents (last (orders (snd (snd (createOrder demoEnv demoStore ?req)))))
             = (\<Sum>item\<leftarrow>items. unit_price_cents item * qty item)
          \<and> totalCents (last (orders (snd (snd (createOrder demoEnv demoStore ?req)))))
             = max 0 ((\<Sum>item\<leftarrow>items. unit_price_cents item * qty item)
                  + shippingCentsOf (selectionOf (body ?req)) - d)"
    unfolding demo_run snd_conv by blast
  have items: "items = [demoItem 2 1000]"
    using f(1) demo_items by (simp add: demoRequest_def)
  have d: "d = 300"
    using f(2) by (simp add: demoRequest_def couponDiscount_def demoEnv_def)
  have sh: "shippingCentsOf (selectionOf (body ?req)) = 500"
    by (simp add: demoRequest_def selectionOf_def demoShipping_def emptySelection_def shippingCentsOf_def num_or_def)
  show ?thesis
    using t x unfolding items d sh by (simp add: demoItem_def)
qed

section \<open>The greedy allocation of the discount\<close>

text \<open>
  Claim C2, as the specification states it, takes \<^verbatim>\<open>round(unit_price * 100) * quantity\<close>
  for the subtotal of a line, for every cart. The handler rounds after multiplying by the
  quantity, \<^verbatim>\<open>Math.round(unit_price * 100 * quantity)\<close>, and the two differ as soon as a
  price is not a whole number of minor units: ten units at 10.4 with a discount of 9 are
  submitted at 0.10 a unit (subtotal 104, less 9, over ten units, rounded), where the
  allocation worded by the specification gives 0.09 (subtotal 100, less 9, over ten
  units, rounded).
\<close>

theorem allocation_greedy_counterexample:
  "unit_price (hd (paymentLines [demoItem 10 (104 / 10)] emptySelection 9)) = 1 / 10
   \<and> unit_price (hd (specAllocate 9
        (buildMpItems [demoItem 10 (104 / 10)] emptySelection (shippingCentsOf emptySelection)))) = 9 / 100
   \<and> paymentLines [demoItem 10 (104 / 10)] emptySelection 9
       \<noteq> specAllocate 9 (buildMpItems [demoItem 10 (104 / 10)] emptySelection (shippingCentsOf emptySelection))"
  unfolding fractional_lines by simp



text \<open>
  Claim C2, amended. For a cart of whole, non-negative unit prices and whole quantities,
  with a whole, non-negative shipping cost and a whole positive discount (every line
  subtotal, the shipping cost and the discount within \<open>2 ^ 50\<close>, where the doubles of
  the code are exact), the claim holds as stated. The payment lines (one for each resolved
  item, then one for shipping when shipping is above zero) are processed in the order
  built, with a remaining discount that starts as the discount. The subtotal the handler
  computes for a line is \<^verbatim>\<open>round(unit_price * 100) * quantity\<close>; a line whose subtotal is
  positive gives up min(line subtotal, remaining discount), its unit price becomes
  \<^verbatim>\<open>round((line subtotal - deduction) / quantity) / 100\<close>, not below zero, and the
  remaining discount goes down by the deduction; any other line gives up nothing. Once the
  remaining discount is zero a line is left as it was built. The lines submitted are those
  of the allocation as the specification words it.
\<close>

theorem allocation_greedy:
  assumes "0 < d" and "exactLines items (shippingCentsOf sel) d"
    and "ms = buildMpItems items sel (shippingCentsOf sel)" and "i < length ms"
  shows "ms = map itemLine items
              @ (if 0 < shippingCentsOf sel then [shippingLine sel (shippingCentsOf sel)] else [])
     \<and> length (paymentLines items sel d) = length ms
     \<and> list_all (\<lambda>m. itemTotalCents m = lineCents m) ms
     \<and> remainingBefore d ms 0 = d
     \<and> deductionAt d ms i =
          (if 0 < lineCents (ms ! i)
           then min (lineCents (ms ! i)) (remainingBefore d ms i) else 0)
     \<and> remainingBefore d ms (Suc i) = remainingBefore d ms i - deductionAt d ms i
     \<and> paymentLines items sel d ! i =
          (if 0 < deductionAt d ms i
           then (ms ! i)\<lparr>unit_price :=
                  max 0 (Math_round ((lineCents (ms ! i) - deductionAt d ms i) / quantity (ms ! i)) / 100)\<rparr>
           else ms ! i)
     \<and> (remainingBefore d ms i = 0 \<longrightarrow> paymentLines items sel d ! i = ms ! i)
     \<and> paymentLines items sel d = specAllocate d ms"
proof -
  from assms(2) have items: "list_all wholeItem items"
    and sh: "isInteger (shippingCentsOf sel)" "0 \<le> shippingCentsOf sel"
    by (simp_all add: exactLines_def list_all_iff)
  have w: "list_all wholeLine ms"
    unfolding assms(3) using items sh by (rule built_whole)
  then have same: "list_all (\<lambda>m. itemTotalCents m = lineCents m) ms"
    by (simp add: list_all_iff whole_total whole_cents)
  with assms(4) have i: "itemTotalCents (ms ! i) = lineCents (ms ! i)"
    by (simp add: list_all_length)
  have p: "paymentLines items sel d = allocate d ms"
    unfolding paymentLines_def assms(3) using assms(1) by (rule applyDiscount_pos)
  from assms(1) have "0 \<le> d" by simp
  from specAllocate_whole [OF w this] p have spec: "paymentLines items sel d = specAllocate d ms"
    by simp
  from paymentLines_nth [OF assms(1,3,4)]
  have c1: "ms = map itemLine items
              @ (if 0 < shippingCentsOf sel then [shippingLine sel (shippingCentsOf sel)] else [])"
    and c2: "length (paymentLines items sel d) = length ms"
    and c3: "remainingBefore d ms 0 = d"
    and c4: "deductionAt d ms i =
          (if 0 < itemTotalCents (ms ! i)
           then min (itemTotalCents (ms ! i)) (remainingBefore d ms i) else 0)"
    and c5: "remainingBefore d ms (Suc i) = remainingBefore d ms i - deductionAt d ms i"
    and c6: "paymentLines items sel d ! i =
          (if 0 < deductionAt d ms i
           then (ms ! i)\<lparr>unit_price :=
                  max 0 (Math_round ((itemTotalCents (ms ! i) - deductionAt d ms i) / quantity (ms ! i)) / 100)\<rparr>
           else ms ! i)"
    and c7: "remainingBefore d ms i = 0 \<longrightarrow> paymentLines items sel d ! i = ms ! i"
    by blast+
  note c4' = c4 [unfolded i] and c6' = c6 [unfolded i]
  show ?thesis
    by (intro conjI) (rule c1 c2 same c3 c4' c5 c6' c7 spec)+
qed

text \<open>The specification's scenario: two units at 1000 and shipping 500 with a discount
  of 300; the first line takes the whole discount and is submitted at 8.50 a unit.\<close>

theorem allocation_greedy_witness:
  "(0::rat) < 300
   \<and> exactLines [demoItem 2 1000] (shippingCentsOf (demoShipping 500)) 300
   \<and> [\<lparr>title = ''Stack'', quantity = 2, currency_id = ''BRL'', unit_price = 10\<rparr>,
       \<lparr>title = ''Frete'', quantity = 1, currency_id = ''BRL'', unit_price = 5\<rparr>]
      = buildMpItems [demoItem 2 1000] (demoShipping 500) (shippingCentsOf (demoShipping 500))
   \<and> paymentLines [demoItem 2 1000] (demoShipping 500) 300 ! 0 =
       \<lparr>title = ''Stack'', quantity = 2, currency_id = ''BRL'', unit_price = 17 / 2\<rparr>
   \<and> remainingBefore 300
        [\<lparr>title = ''Stack'', quantity = 2, currency_id = ''BRL'', unit_price = 10\<rparr>,
         \<lparr>title = ''Frete'', quantity = 1, currency_id = ''BRL'', unit_price = 5\<rparr>] (Suc 0) = 0"
proof -
  let ?l = "\<lparr>title = ''Stack'', quantity = 2, currency_id = ''BRL'', unit_price = 10\<rparr>"
  let ?ms = "[?l, \<lparr>title = ''Frete'', quantity = 1, currency_id = ''BRL'', unit_price = 5\<rparr>]"
  have h: "(0::rat) < 300" "(0::nat) < length ?ms"
    by simp_all
  have x: "exactLines [demoItem 2 1000] (shippingCentsOf (demoShipping 500)) 300"
    by code_simp
  have e: "deductionAt 300 ?ms 0 = 300" "lineCents ?l = 2000" "remainingBefore 300 ?ms 0 = 300"
    "Math_round 850 = 850"
    by code_simp+
  from allocation_greedy [OF h(1) x scenario_lines [symmetric] h(2)]
  have "paymentLines [demoItem 2 1000] (demoShipping 500) 300 ! 0 =
          (if 0 < deductionAt 300 ?ms 0
           then (?ms ! 0)\<lparr>unit_price :=
                  max 0 (Math_round ((lineCents (?ms ! 0) - deductionAt 300 ?ms 0) / quantity (?ms ! 0)) / 100)\<rparr>
           else ?ms ! 0)"
    and "remainingBefore 300 ?ms (Suc 0) = remainingBefore 300 ?ms 0 - deductionAt 300 ?ms 0"
    by blast+
  then show ?thesis
    using h(1) x scenario_lines by (simp add: e)
qed

section \<open>Rounding of the allocated lines\<close>





section \<open>Quantities kept by the resolver\<close>

text \<open>
  Claim C4, as the specification states it, has the resolver coerce the quantity to a
  positive integer, so that every resolved item has a whole quantity. The resolver
  applies \<^verbatim>\<open>Number\<close> and nothing else: a cart line with \<^verbatim>\<open>qty: 1.5\<close> is resolved
  with the quantity 1.5.
\<close>

theorem resolver_quantities_counterexample:
  "resolveItems demoEnv (products demoStore) (ItemArray [Some (demoLine ''A'' (3 / 2) 1000)])
     = Inr [demoItem (3 / 2) 1000]
   \<and> \<not> isInteger (qty (demoItem (3 / 2) 1000))"
  by code_simp


text \<open>
  Claim C4, amended. For every cart line the resolver processes, the quantity is
  \<^verbatim>\<open>Number(item.qty || item.quantity || 1)\<close>: a missing quantity defaults to 1, a
  numeric \<^verbatim>\<open>qty\<close> other than zero is taken as it is (whole or not), and a line is
  skipped exactly when this number is \<^verbatim>\<open>NaN\<close> or not above zero; consequently every
  resolved item has a quantity above zero.
\<close>

theorem resolver_quantities:
  "(l_qty item = None \<and> l_quantity item = None \<longrightarrow> line_qty E item = Some 1)
   \<and> (\<forall>n. l_qty item = Some (JNum n) \<and> n \<noteq> 0 \<longrightarrow> line_qty E item = Some n)
   \<and> (resolveLine E ps item = Inr None
        \<longleftrightarrow> (case line_qty E item of None \<Rightarrow> True | Some q \<Rightarrow> q \<le> 0))
   \<and> (\<forall>r. resolveLine E ps item = Inr (Some r) \<longrightarrow> line_qty E item = Some (qty r) \<and> 0 < qty r)
   \<and> (\<forall>items. resolveItems E ps raw = Inr items \<longrightarrow> list_all (\<lambda>r. 0 < qty r) items)"
proof -
  have a: "line_qty E item = Some 1" if "l_qty item = None \<and> l_quantity item = None"
    using that by (simp add: line_qty_def or_else_def)
  have b: "line_qty E item = Some n" if "l_qty item = Some (JNum n) \<and> n \<noteq> 0" for n
    using that by (simp add: line_qty_def or_else_def)
  have c: "resolveLine E ps item = Inr None
        \<longleftrightarrow> (case line_qty E item of None \<Rightarrow> True | Some q \<Rightarrow> q \<le> 0)"
    by (auto simp: resolveLine_def split: option.splits)
  have d: "list_all (\<lambda>r. 0 < qty r) items" if "resolveItems E ps raw = Inr items" for items
  proof -
    from that obtain ls where "resolveLoop E ps ls [] = Inr items"
      by (auto simp: resolveItems_def split: raw_items.splits if_splits sum.splits)
    from resolveLoop_qty [OF this] show ?thesis by simp
  qed
  show ?thesis
    using a b c d resolveLine_item [of E ps item] by blast
qed

theorem resolver_quantities_witness:
  "line_qty demoEnv (demoLine ''A'' (3 / 2) 1000) = Some (3 / 2)
   \<and> resolveLine demoEnv (products demoStore) (demoLine ''A'' (3 / 2) 1000) = Inr (Some (demoItem (3 / 2) 1000))
   \<and> (0::rat) < 3 / 2
   \<and> resolveLine demoEnv (products demoStore) (demoLine ''A'' (- 1) 1000) = Inr None
   \<and> line_qty demoEnv ((demoLine ''A'' 5 1000)\<lparr>l_qty := None\<rparr>) = Some 1"
proof -
  have r: "resolveLine demoEnv (products demoStore) (demoLine ''A'' (3 / 2) 1000) = Inr (Some (demoItem (3 / 2) 1000))"
    by code_simp
  have q: "line_qty demoEnv (demoLine ''A'' (- 1) 1000) = Some (- 1)"
    by code_simp
  have m: "l_qty ((demoLine ''A'' 5 1000)\<lparr>l_qty := None\<rparr>) = None \<and> l_quantity ((demoLine ''A'' 5 1000)\<lparr>l_qty := None\<rparr>) = None"
    by (simp add: demoLine_def)
  from resolver_quantities [of "demoLine ''A'' (3 / 2) 1000" demoEnv "products demoStore" Missing] r
  have "line_qty demoEnv (demoLine ''A'' (3 / 2) 1000) = Some (qty (demoItem (3 / 2) 1000))"
    "0 < qty (demoItem (3 / 2) 1000)"
    by blast+
  moreover from resolver_quantities [of "demoLine ''A'' (- 1) 1000" demoEnv "products demoStore" Missing] q
  have "resolveLine demoEnv (products demoStore) (demoLine ''A'' (- 1) 1000) = Inr None"
    by simp
  moreover from resolver_quantities [of "(demoLine ''A'' 5 1000)\<lparr>l_qty := None\<rparr>" demoEnv "products demoStore" Missing] m
  have "line_qty demoEnv ((demoLine ''A'' 5 1000)\<lparr>l_qty := None\<rparr>) = Some 1"
    by blast
  ultimately show ?thesis using r by (simp add: demoItem_def)
qed


section \<open>Prices after the allocation\<close>

text \<open>
  Claim C5. For every cart and every discount, the allocation never makes the unit price
  of a payment line negative: each line submitted to the gateway has a unit price of at
  least \<open>min 0\<close> of the price it was built with, so a line built with a non-negative
  price is submitted with a non-negative price, and when every resolved price is
  non-negative so is every submitted unit price.
\<close>

theorem allocation_keeps_prices_nonnegative:
  assumes "PaymentCall ls \<in> set (fst (snd (createOrder E store req)))"
  shows "\<exists>items.
     resolveItems E (products store) (b_items (body req)) = Inr items
     \<and> list_all2 (\<lambda>m m'. min 0 (unit_price m) \<le> unit_price m')
          (buildMpItems items (selectionOf (body req)) (shippingCentsOf (selectionOf (body req)))) ls
     \<and> (list_all (\<lambda>item. 0 \<le> unit_price_cents item) items \<longrightarrow> list_all (\<lambda>m. 0 \<le> unit_price m) ls)"
proof -
  let ?sel = "selectionOf (body req)"
  from assms obtain items trc d where
    items: "resolveItems E (products store) (b_items (body req)) = Inr items"
    and ls: "ls = paymentLines items ?sel d"
    by (rule createOrder_payment)
  let ?ms = "buildMpItems items ?sel (shippingCentsOf ?sel)"
  have fl: "list_all2 (\<lambda>m m'. min 0 (unit_price m) \<le> unit_price m') ?ms ls"
    unfolding ls paymentLines_def by (rule applyDiscount_floor)
  have "list_all (\<lambda>m. 0 \<le> unit_price m) ls"
    if "list_all (\<lambda>item. 0 \<le> unit_price_cents item) items"
  proof -
    have "list_all (\<lambda>m. 0 \<le> unit_price m) ?ms"
      using that by (auto simp: buildMpItems_def list_all_iff itemLine_def shippingLine_def)
    with fl show ?thesis by (rule floor_keeps_nonneg)
  qed
  with items fl show ?thesis by blast
qed

theorem allocation_keeps_prices_nonnegative_witness:
  "PaymentCall
     [\<lparr>title = ''Stack'', quantity = 2, currency_id = ''BRL'', unit_price = 17 / 2\<rparr>,
      \<lparr>title = ''Frete'', quantity = 1, currency_id = ''BRL'', unit_price = 5\<rparr>]
     \<in> set (fst (snd (createOrder demoEnv demoStore
                (demoRequest [demoLine ''A'' 2 1000] 7 500 (Some ''OFF'')))))
   \<and> list_all (\<lambda>m. 0 \<le> unit_price m)
     [\<lparr>title = ''Stack'', quantity = 2, currency_id = ''BRL'', unit_price = 17 / 2\<rparr>,
      \<lparr>title = ''Frete'', quantity = 1, currency_id = ''BRL'', unit_price = 5\<rparr>]"
proof -
  let ?req = "demoRequest [demoLine ''A'' 2 1000] 7 500 (Some ''OFF'')"
  let ?ls = "[\<lparr>title = ''Stack'', quantity = 2, currency_id = ''BRL'', unit_price = 17 / 2\<rparr>,
      \<lparr>title = ''Frete'', quantity = 1, currency_id = ''BRL'', unit_price = 5\<rparr>]"
  have sent: "PaymentCall ?ls \<in> set (fst (snd (createOrder demoEnv demoStore ?req)))"
    unfolding demo_run by simp
  from allocation_keeps_prices_nonnegative [OF this] obtain items where
    "resolveItems demoEnv (products demoStore) (b_items (body ?req)) = Inr items"
    and imp: "list_all (\<lambda>item. 0 \<le> unit_price_cents item) items \<longrightarrow> list_all (\<lambda>m. 0 \<le> unit_price m) ?ls"
    by blast
  then have "items = [demoItem 2 1000]"
    using demo_items by (simp add: demoRequest_def)
  with imp sent show ?thesis by (simp add: demoItem_def)
qed

section \<open>Invalid input\<close>

text \<open>
  Claim C6, as stated, has the resolver fail with \<open>InvalidItems\<close> whenever no line
  yields a usable quantity. An array whose only element is \<^verbatim>\<open>null\<close> has no such line,
  and the resolver fails on it with the \<open>TypeError\<close> of reading \<^verbatim>\<open>item.qty\<close>, not
  with \<open>InvalidItems\<close>.
\<close>

theorem resolver_invalid_input_counterexample:
  "list_all (noUsableQty demoEnv) [None]
   \<and> resolveItems demoEnv (products demoStore) (ItemArray [None]) = Inl TypeError
   \<and> resolveItems demoEnv (products demoStore) (ItemArray [None]) \<noteq> Inl InvalidItems"
  by code_simp

text \<open>
  Claim C6, amended. The resolver fails with \<open>InvalidItems\<close> exactly when its input is
  not an array, is the empty array, or consists of cart lines (no \<^verbatim>\<open>null\<close> among them)
  none of which has a usable quantity; an array with a \<^verbatim>\<open>null\<close> element and no usable
  quantity fails with the \<open>TypeError\<close> instead. Handed the empty array,
  \<^verbatim>\<open>createOrder\<close> answers 400 having called no service (its only effect is the
  rollback), and so does \<^verbatim>\<open>quote\<close> for a body with the empty array and a destination.
  (For a body without a destination \<^verbatim>\<open>quote\<close> builds the cart from the query string, and
  the resolver is not handed the items of the body.)
\<close>

theorem resolver_invalid_input:
  "(resolveItems E ps raw = Inl InvalidItems \<longleftrightarrow>
      (case raw of
         ItemArray ls \<Rightarrow> ls = [] \<or> list_all (skipped E) ls
       | _ \<Rightarrow> True))
   \<and> (None \<in> set els \<and> list_all (noUsableQty E) els \<longrightarrow>
        resolveItems E ps (ItemArray els) = Inl TypeError)
   \<and> (b_items (body req) = ItemArray [] \<longrightarrow>
        createOrder E store req =
          (Json_error 400 (if ensureFields E (body req) [''items'', ''address_id'', ''shipping''] \<noteq> []
                           then IncompleteData else InvalidItems), [Rollback], store))
   \<and> (qr_items qreq = ItemArray [] \<and> qr_destination qreq \<noteq> None \<longrightarrow>
        quote E store qreq = (Json_error 400 InvalidItems, []))"
proof -
  have e: "resolveItems E ps' (ItemArray []) = Inl InvalidItems" for ps'
    by (simp add: resolveItems_def)
  have c: "createOrder E store req =
          (Json_error 400 (if ensureFields E (body req) [''items'', ''address_id'', ''shipping''] \<noteq> []
                           then IncompleteData else InvalidItems), [Rollback], store)"
    if "b_items (body req) = ItemArray []"
    using createOrder_unresolved [of E store req InvalidItems] e that
    by (simp add: caughtMessage_def)
  have q: "quote E store qreq = (Json_error 400 InvalidItems, [])"
    if "qr_items qreq = ItemArray [] \<and> qr_destination qreq \<noteq> None"
    using that e by (auto simp: quote_def quoteItems_def)
  have n: "resolveItems E ps (ItemArray els) = Inl TypeError"
    if "None \<in> set els \<and> list_all (noUsableQty E) els"
    using that resolveItems_null by blast
  show ?thesis
    using resolveItems_invalid [of E ps raw] c q n by blast
qed

theorem resolver_invalid_input_witness:
  "resolveItems demoEnv (products demoStore) (ItemArray [Some (demoLine ''A'' (- 1) 1000)]) = Inl InvalidItems
   \<and> createOrder demoEnv demoStore (demoRequest [] 7 500 (Some ''OFF''))
        = (Json_error 400 InvalidItems, [Rollback], demoStore)
   \<and> quote demoEnv demoStore (demoQuote (ItemArray [])) = (Json_error 400 InvalidItems, [])
   \<and> resolveItems demoEnv (products demoStore) (ItemArray [Some (demoLine ''A'' (- 1) 1000), None])
        = Inl TypeError"
proof -
  have u: "list_all (skipped demoEnv) [Some (demoLine ''A'' (- 1) 1000)]"
    "None \<in> set [Some (demoLine ''A'' (- 1) 1000), None]
      \<and> list_all (noUsableQty demoEnv) [Some (demoLine ''A'' (- 1) 1000), None]"
    by code_simp+
  have f: "ensureFields demoEnv (body (demoRequest [] 7 500 (Some ''OFF''))) [''items'', ''address_id'', ''shipping''] = []"
    by (simp add: demoEnv_def)
  have b: "b_items (body (demoRequest [] 7 500 (Some ''OFF''))) = ItemArray []"
    by (simp add: demoRequest_def)
  have q: "qr_items (demoQuote (ItemArray [])) = ItemArray [] \<and> qr_destination (demoQuote (ItemArray [])) \<noteq> None"
    by (simp add: demoQuote_def)
  from resolver_invalid_input [where E = demoEnv and ps = "products demoStore"
      and raw = "ItemArray [Some (demoLine ''A'' (- 1) 1000)]"
      and els = "[Some (demoLine ''A'' (- 1) 1000), None]"
      and req = "demoRequest [] 7 500 (Some ''OFF'')" and store = demoStore
      and qreq = "demoQuote (ItemArray [])"]
  show ?thesis using u f b q by simp
qed


section \<open>Products that cannot be sold\<close>

text \<open>
  Claim C7. The resolver goes through the cart in order and fails at the first line that
  cannot be sold: with \<open>ProductNotFound\<close> when the product of a line with a usable
  quantity cannot be resolved or is inactive, with \<open>InsufficientStock\<close> when the
  product tracks its stock and the quantity asked is above the stock. A cart with any
  such line makes the resolver fail with one of the two (or, when a \<^verbatim>\<open>null\<close> element
  is what stops the loop, with the error of the runtime). In \<^verbatim>\<open>createOrder\<close> either
  failure is answered with 400 after the rollback alone: no order row, no order item and
  no stock decrement has been written, and the store is as it was.
\<close>

theorem resolver_product_errors:
  assumes "list_all (\<lambda>l. \<not> lineFails E ps l) pre"
    and "line_qty E item = Some q" and "0 < q"
  shows "(lookupProduct E ps item = None \<longrightarrow>
            resolveItems E ps (ItemArray (pre @ Some item # post)) = Inl (ProductNotFound (line_ref item)))
     \<and> (\<forall>p. lookupProduct E ps item = Some p \<and> \<not> p_active p \<longrightarrow>
            resolveItems E ps (ItemArray (pre @ Some item # post)) = Inl (ProductNotFound (line_ref item)))
     \<and> (\<forall>p. lookupProduct E ps item = Some p \<and> p_active p \<and> p_stockManaged p \<and> p_stockQuantity p < q \<longrightarrow>
            resolveItems E ps (ItemArray (pre @ Some item # post)) = Inl (InsufficientStock (p_name p)))
     \<and> (list_ex (lineFails E ps) ls \<longrightarrow>
            (\<exists>r n. resolveItems E ps (ItemArray ls) = Inl (ProductNotFound r)
                 \<or> resolveItems E ps (ItemArray ls) = Inl (InsufficientStock n)
                 \<or> None \<in> set ls \<and> resolveItems E ps (ItemArray ls) = Inl TypeError))
     \<and> (\<forall>r n. resolveItems E (products store) (b_items (body req)) = Inl (ProductNotFound r)
               \<or> resolveItems E (products store) (b_items (body req)) = Inl (InsufficientStock n) \<longrightarrow>
            fst (snd (createOrder E store req)) = [Rollback] \<and> snd (snd (createOrder E store req)) = store
            \<and> (\<exists>e. fst (createOrder E store req) = Json_error 400 e))"
proof -
  have a: "resolveItems E ps (ItemArray (pre @ Some item # post)) = Inl (ProductNotFound (line_ref item))"
    if "lookupProduct E ps item = None"
    by (rule resolveItems_first_error [OF assms(1)]) (use that assms(2,3) in \<open>simp add: resolveElement_def resolveLine_def\<close>)
  have b: "resolveItems E ps (ItemArray (pre @ Some item # post)) = Inl (ProductNotFound (line_ref item))"
    if "lookupProduct E ps item = Some p \<and> \<not> p_active p" for p
    by (rule resolveItems_first_error [OF assms(1)]) (use that assms(2,3) in \<open>simp add: resolveElement_def resolveLine_def\<close>)
  have c: "resolveItems E ps (ItemArray (pre @ Some item # post)) = Inl (InsufficientStock (p_name p))"
    if "lookupProduct E ps item = Some p \<and> p_active p \<and> p_stockManaged p \<and> p_stockQuantity p < q" for p
    by (rule resolveItems_first_error [OF assms(1)]) (use that assms(2,3) in \<open>simp add: resolveElement_def resolveLine_def\<close>)
  have d: "fst (snd (createOrder E store req)) = [Rollback] \<and> snd (snd (createOrder E store req)) = store
            \<and> (\<exists>e. fst (createOrder E store req) = Json_error 400 e)"
    if "resolveItems E (products store) (b_items (body req)) = Inl e" for e
    by (simp add: createOrder_unresolved [OF that])
  have e: "\<exists>r n. resolveItems E ps (ItemArray ls) = Inl (ProductNotFound r)
                 \<or> resolveItems E ps (ItemArray ls) = Inl (InsufficientStock n)
                 \<or> None \<in> set ls \<and> resolveItems E ps (ItemArray ls) = Inl TypeError"
    if "list_ex (lineFails E ps) ls"
    using resolveItems_some_error [OF that] by blast
  show ?thesis
    using a b c d e by blast
qed

theorem resolver_product_errors_witness:
  "resolveItems demoEnv (products demoStore)
       (ItemArray ([Some (demoLine ''A'' 1 1000)] @ Some (demoLine ''nowhere'' 1 1000) # [Some (demoLine ''A'' 99 1000)]))
     = Inl (ProductNotFound (Some (JStr ''nowhere'')))
   \<and> resolveItems demoEnv (products demoStore)
       (ItemArray ([Some (demoLine ''A'' 1 1000)] @ Some (demoLine ''R'' 1 1000) # []))
     = Inl (ProductNotFound (Some (JStr ''R'')))
   \<and> resolveItems demoEnv (products demoStore)
       (ItemArray ([Some (demoLine ''A'' 1 1000)] @ Some (demoLine ''A'' 51 1000) # []))
     = Inl (InsufficientStock ''Stack'')
   \<and> createOrder demoEnv demoStore (demoRequest [demoLine ''A'' 51 1000] 7 500 None)
     = (Json_error 400 (InsufficientStock ''Stack''), [Rollback], demoStore)"
proof -
  have pre: "list_all (\<lambda>l. \<not> lineFails demoEnv (products demoStore) l) [Some (demoLine ''A'' 1 1000)]"
    by code_simp
  have q: "line_qty demoEnv (demoLine s 1 1000) = Some 1" "line_qty demoEnv (demoLine s 51 1000) = Some 51" for s
    by (simp_all add: line_qty_def demoLine_def or_else_def)
  have l: "lookupProduct demoEnv (products demoStore) (demoLine ''nowhere'' 1 1000) = None"
    "lookupProduct demoEnv (products demoStore) (demoLine ''R'' 1 1000) = Some demoRetired \<and> \<not> p_active demoRetired"
    "lookupProduct demoEnv (products demoStore) (demoLine ''A'' 51 1000) = Some demoProduct \<and> p_active demoProduct
       \<and> p_stockManaged demoProduct \<and> p_stockQuantity demoProduct < 51"
    by code_simp+
  have r: "line_ref (demoLine ''nowhere'' 1 1000) = Some (JStr ''nowhere'')"
    "line_ref (demoLine ''R'' 1 1000) = Some (JStr ''R'')" "p_name demoProduct = ''Stack''"
    by (simp_all add: line_ref_def or_field_def present_def demoLine_def demoProduct_def)
  have run: "createOrder demoEnv demoStore (demoRequest [demoLine ''A'' 51 1000] 7 500 None)
     = (Json_error 400 (InsufficientStock ''Stack''), [Rollback], demoStore)"
    by code_simp
  from resolver_product_errors [OF pre q(1) [of "''nowhere''"], where post = "[Some (demoLine ''A'' 99 1000)]"
      and store = demoStore and req = "demoRequest [demoLine ''A'' 51 1000] 7 500 None" and ls = "[]"]
    resolver_product_errors [OF pre q(1) [of "''R''"], where post = "[]"
      and store = demoStore and req = "demoRequest [demoLine ''A'' 51 1000] 7 500 None" and ls = "[]"]
    resolver_product_errors [OF pre q(2) [of "''A''"], where post = "[]"
      and store = demoStore and req = "demoRequest [demoLine ''A'' 51 1000] 7 500 None" and ls = "[]"]
  show ?thesis using l r run by simp
qed

section \<open>All or nothing\<close>

text \<open>
  Claim C8. Whatever step of \<^verbatim>\<open>createOrder\<close> fails (a check, the resolver, a service,
  a write inside the transaction), the transaction is rolled back before the response: an
  error response comes with the store as it was (no order row, no order item, no stock
  decrement), the rollback being the last effect and no commit among the effects. In
  particular, when the payment gateway refuses the lines submitted, the store is as it was
  and the response is the error. A created order comes with a payment preference the
  gateway returned, whose identifier is on the order row, and the store changes only then.
\<close>

theorem createOrder_atomic:
  assumes "createOrder E store req = (resp, tr, store')"
  shows "(\<forall>code e. resp = Json_error code e \<longrightarrow>
            store' = store \<and> last tr = Rollback \<and> Commit \<notin> set tr \<and> OrderUpdate \<notin> set tr)
     \<and> (\<forall>k pid ip. resp = Json_created k pid ip \<longrightarrow>
            (\<exists>ls pref. PaymentCall ls \<in> set tr \<and> createPreference E ls (user req) = Inr pref
                \<and> pid = preferenceId pref)
            \<and> last tr = Commit
            \<and> (\<exists>row. orders store' = orders store @ [row] \<and> o_id row = k
                  \<and> mercadoPagoPreferenceId row = Some pid))
     \<and> (\<forall>ls e. PaymentCall ls \<in> set tr \<and> createPreference E ls (user req) = Inl e \<longrightarrow>
            store' = store \<and> resp = Json_error 400 (caughtMessage e))
     \<and> (store' \<noteq> store \<longrightarrow> (\<exists>k pid ip. resp = Json_created k pid ip))"
proof -
  have err: "store' = store \<and> last tr = Rollback \<and> Commit \<notin> set tr \<and> OrderUpdate \<notin> set tr"
    if "resp = Json_error code e" for code e
    using createOrder_error [of E store req code e tr store'] assms that by simp
  have ok: "(\<exists>ls pref. PaymentCall ls \<in> set tr \<and> createPreference E ls (user req) = Inr pref
                \<and> pid = preferenceId pref)
            \<and> last tr = Commit
            \<and> (\<exists>row. orders store' = orders store @ [row] \<and> o_id row = k
                  \<and> mercadoPagoPreferenceId row = Some pid)"
    if "resp = Json_created k pid ip" for k pid ip
  proof -
    from assms that have "createOrder E store req = (Json_created k pid ip, tr, store')" by simp
    then show ?thesis
    proof (rule createOrder_created)
      fix items addr trc d pref tr'
      assume "createPreference E (paymentLines items (selectionOf (body req)) d) (user req) = Inr pref"
        "pid = preferenceId pref"
        "orders store' = orders store @
          [(orderRow k (user req) addr (selectionOf (body req)) (subtotalOf items)
             (shippingCentsOf (selectionOf (body req))) d
             (totalOf (subtotalOf items) (shippingCentsOf (selectionOf (body req))) d))
           \<lparr>mercadoPagoPreferenceId := Some pid\<rparr>]"
        "tr = trc @ [OrderInsert] @ tr' @ [PaymentCall (paymentLines items (selectionOf (body req)) d), OrderUpdate, Commit]"
      then show ?thesis
        by (auto simp: orderRow_def)
    qed
  qed
  have pay: "store' = store \<and> resp = Json_error 400 (caughtMessage e)"
    if "PaymentCall ls \<in> set tr \<and> createPreference E ls (user req) = Inl e" for ls e
  proof -
    from that assms have "PaymentCall ls \<in> set (fst (snd (createOrder E store req)))" by simp
    then obtain items trc d where
      items: "resolveItems E (products store) (b_items (body req)) = Inr items"
      and d: "couponDiscount E (b_coupon_code (body req)) (subtotalOf items) = (trc, Inr d)"
      and ls: "ls = paymentLines items (selectionOf (body req)) d"
      by (rule createOrder_payment)
    show ?thesis
    proof (cases rule: createOrder_cases [where E = E and store = store and req = req])
      case (placed items' addr trc' d' row)
      with items d have same: "items' = items" "d' = d" by simp_all
      have c: "set trc' \<subseteq> {CouponCall}"
        using coupon_trace [of E "b_coupon_code (body req)" "subtotalOf items'"] placed(4) by simp
      have "PaymentCall ls \<notin> set tr2"
        if "persistItems E (nextOrderId (orders store)) items'
               (store\<lparr>orders := orders store @ [row]\<rparr>, trc' @ [OrderInsert]) = Inr (tx2, tr2)
            \<or> persistItems E (nextOrderId (orders store)) items'
               (store\<lparr>orders := orders store @ [row]\<rparr>, trc' @ [OrderInsert]) = Inl (e', tr2)"
        for tx2 tr2 e'
        using persist_events [OF that c] by auto
      with same placed(6) \<open>PaymentCall ls \<in> set tr \<and> createPreference E ls (user req) = Inl e\<close> ls assms
      show ?thesis
        by (auto split: sum.splits prod.splits option.splits)
    qed (use that assms items d coupon_trace [of E "b_coupon_code (body req)" "subtotalOf items"] in auto)
  qed
  have "\<exists>k pid ip. resp = Json_created k pid ip" if "store' \<noteq> store"
    using createOrder_response [of E store req] err that assms by auto
  with err ok pay show ?thesis by blast
qed

text \<open>The scenario cart with the gateway down, with a store that refuses the stock
  decrement, and with everything up.\<close>

theorem createOrder_atomic_witness:
  "createPreference demoEnvNoGateway
      [\<lparr>title = ''Stack'', quantity = 2, currency_id = ''BRL'', unit_price = 17 / 2\<rparr>,
       \<lparr>title = ''Frete'', quantity = 1, currency_id = ''BRL'', unit_price = 5\<rparr>] demoUser
     = Inl (External ''gateway down'')
   \<and> snd (snd (createOrder demoEnvNoGateway demoStore
        (demoRequest [demoLine ''A'' 2 1000] 7 500 (Some ''OFF'')))) = demoStore
   \<and> fst (createOrder demoEnvNoGateway demoStore
        (demoRequest [demoLine ''A'' 2 1000] 7 500 (Some ''OFF''))) = Json_error 400 (External ''gateway down'')
   \<and> snd (snd (createOrder demoEnvNoDecrement demoStore
        (demoRequest [demoLine ''A'' 2 1000] 7 500 (Some ''OFF'')))) = demoStore
   \<and> last (fst (snd (createOrder demoEnvNoDecrement demoStore
        (demoRequest [demoLine ''A'' 2 1000] 7 500 (Some ''OFF''))))) = Rollback
   \<and> last (fst (snd (createOrder demoEnv demoStore
        (demoRequest [demoLine ''A'' 2 1000] 7 500 (Some ''OFF''))))) = Commit
   \<and> map mercadoPagoPreferenceId (orders (snd (snd (createOrder demoEnv demoStore
        (demoRequest [demoLine ''A'' 2 1000] 7 500 (Some ''OFF'')))))) = [Some ''pref-1'']"
proof -
  let ?req = "demoRequest [demoLine ''A'' 2 1000] 7 500 (Some ''OFF'')"
  let ?ls = "[\<lparr>title = ''Stack'', quantity = 2, currency_id = ''BRL'', unit_price = 17 / 2\<rparr>,
       \<lparr>title = ''Frete'', quantity = 1, currency_id = ''BRL'', unit_price = 5\<rparr>]"
  have p: "createPreference demoEnvNoGateway ?ls (user ?req) = Inl (External ''gateway down'')"
    by (simp add: demoEnvNoGateway_def)
  have u: "user ?req = demoUser" by (simp add: demoRequest_def)
  have c: "caughtMessage (External ''gateway down'') = External ''gateway down''"
    by (simp add: caughtMessage_def)
  have o: "orders demoStore = []" by (simp add: demoStore_def)
  from createOrder_atomic [OF demo_down] p
  have "snd (snd (createOrder demoEnvNoGateway demoStore ?req)) = demoStore"
    "fst (createOrder demoEnvNoGateway demoStore ?req) = Json_error 400 (External ''gateway down'')"
    unfolding demo_down by (simp_all add: c)
  moreover from createOrder_atomic [OF demo_locked]
  have "snd (snd (createOrder demoEnvNoDecrement demoStore ?req)) = demoStore"
    "last (fst (snd (createOrder demoEnvNoDecrement demoStore ?req))) = Rollback"
    unfolding demo_locked by simp_all
  moreover from createOrder_atomic [OF demo_run]
  have "last (fst (snd (createOrder demoEnv demoStore ?req))) = Commit"
    "\<exists>row. orders (snd (snd (createOrder demoEnv demoStore ?req))) = orders demoStore @ [row]
        \<and> mercadoPagoPreferenceId row = Some ''pref-1''"
    unfolding demo_run by simp_all
  ultimately show ?thesis
    using p u o by auto
qed

section \<open>The allocation touches the payment lines only\<close>

text \<open>
  Claim C9. The allocation of the discount changes nothing but the payment lines handed to
  the gateway. On a created order, the order row holds the subtotal, the shipping cost,
  the discount and the grand total computed from the resolved items, and each order item
  holds the unit price and the quantity of its resolved item; the rows are written before
  the lines are submitted, and they are what they are whatever the allocation made of the
  lines.
\<close>

theorem allocation_leaves_order_rows:
  assumes "createOrder E store req = (Json_created k pid ip, tr, store')"
  shows "\<exists>items (addr :: address) d before.
     resolveItems E (products store) (b_items (body req)) = Inr items
     \<and> snd (couponDiscount E (b_coupon_code (body req)) (subtotalOf items)) = Inr d
     \<and> tr = before @ [PaymentCall (paymentLines items (selectionOf (body req)) d), OrderUpdate, Commit]
     \<and> OrderInsert \<in> set before
     \<and> orders store' = orders store @
          [\<lparr>o_id = k, o_userId = u_id (user req), o_addressId = a_id addr,
            subtotalCents = subtotalOf items,
            shippingCents = shippingCentsOf (selectionOf (body req)),
            discountCents = d,
            totalCents = totalOf (subtotalOf items) (shippingCentsOf (selectionOf (body req))) d,
            shippingCarrier = shippingCarrier (last (orders store')),
            shippingService = shippingService (last (orders store')),
            shippingEstimateDays = shippingEstimateDays (last (orders store')),
            mercadoPagoPreferenceId = Some pid\<rparr>]
     \<and> orderItems store' = orderItems store @ map (itemRow k) items
     \<and> map oi_unitPriceCents (drop (length (orderItems store)) (orderItems store'))
          = map unit_price_cents items
     \<and> map oi_quantity (drop (length (orderItems store)) (orderItems store')) = map qty items"
proof -
  from assms obtain items addr trc d pref tr' where
    items: "resolveItems E (products store) (b_items (body req)) = Inr items"
    and d: "couponDiscount E (b_coupon_code (body req)) (subtotalOf items) = (trc, Inr d)"
    and o: "orders store' = orders store @
       [(orderRow k (user req) addr (selectionOf (body req)) (subtotalOf items)
          (shippingCentsOf (selectionOf (body req))) d
          (totalOf (subtotalOf items) (shippingCentsOf (selectionOf (body req))) d))
        \<lparr>mercadoPagoPreferenceId := Some pid\<rparr>]"
    and oi: "orderItems store' = orderItems store @ map (itemRow k) items"
    and tr: "tr = trc @ [OrderInsert] @ tr' @ [PaymentCall (paymentLines items (selectionOf (body req)) d), OrderUpdate, Commit]"
    by (rule createOrder_created)
  have rows: "map oi_unitPriceCents (map (itemRow k) items) = map unit_price_cents items"
    "map oi_quantity (map (itemRow k) items) = map qty items"
    by (simp_all add: itemRow_def comp_def)
  let ?P = "\<lambda>items (addr :: address) d before.
     resolveItems E (products store) (b_items (body req)) = Inr items
     \<and> snd (couponDiscount E (b_coupon_code (body req)) (subtotalOf items)) = Inr d
     \<and> tr = before @ [PaymentCall (paymentLines items (selectionOf (body req)) d), OrderUpdate, Commit]
     \<and> OrderInsert \<in> set before
     \<and> orders store' = orders store @
          [\<lparr>o_id = k, o_userId = u_id (user req), o_addressId = a_id addr,
            subtotalCents = subtotalOf items,
            shippingCents = shippingCentsOf (selectionOf (body req)),
            discountCents = d,
            totalCents = totalOf (subtotalOf items) (shippingCentsOf (selectionOf (body req))) d,
            shippingCarrier = shippingCarrier (last (orders store')),
            shippingService = shippingService (last (orders store')),
            shippingEstimateDays = shippingEstimateDays (last (orders store')),
            mercadoPagoPreferenceId = Some pid\<rparr>]
     \<and> orderItems store' = orderItems store @ map (itemRow k) items
     \<and> map oi_unitPriceCents (drop (length (orderItems store)) (orderItems store'))
          = map unit_price_cents items
     \<and> map oi_quantity (drop (length (orderItems store)) (orderItems store')) = map qty items"
  have "?P items addr d (trc @ [OrderInsert] @ tr')"
    using items d rows by (simp add: o oi tr orderRow_def)
  then show ?thesis by (intro exI)
qed

text \<open>In the scenario the first line is submitted at 8.50 a unit, and the order item keeps
  the unit price 1000 and the quantity 2.\<close>

theorem allocation_leaves_order_rows_witness:
  "PaymentCall
     [\<lparr>title = ''Stack'', quantity = 2, currency_id = ''BRL'', unit_price = 17 / 2\<rparr>,
      \<lparr>title = ''Frete'', quantity = 1, currency_id = ''BRL'', unit_price = 5\<rparr>]
     \<in> set (fst (snd (createOrder demoEnv demoStore
                (demoRequest [demoLine ''A'' 2 1000] 7 500 (Some ''OFF'')))))
   \<and> map oi_unitPriceCents (orderItems (snd (snd (createOrder demoEnv demoStore
        (demoRequest [demoLine ''A'' 2 1000] 7 500 (Some ''OFF'')))))) = [1000]
   \<and> map oi_quantity (orderItems (snd (snd (createOrder demoEnv demoStore
        (demoRequest [demoLine ''A'' 2 1000] 7 500 (Some ''OFF'')))))) = [2]
   \<and> map totalCents (orders (snd (snd (createOrder demoEnv demoStore
        (demoRequest [demoLine ''A'' 2 1000] 7 500 (Some ''OFF'')))))) = [2200]"
proof -
  let ?req = "demoRequest [demoLine ''A'' 2 1000] 7 500 (Some ''OFF'')"
  let ?store' = "snd (snd (createOrder demoEnv demoStore ?req))"
  from allocation_leaves_order_rows [OF demo_run] obtain items where
    i: "resolveItems demoEnv (products demoStore) (b_items (body ?req)) = Inr items"
    and r: "map oi_unitPriceCents (drop (length (orderItems demoStore)) (orderItems ?store'))
          = map unit_price_cents items"
      "map oi_quantity (drop (length (orderItems demoStore)) (orderItems ?store')) = map qty items"
    unfolding demo_run snd_conv by blast
  have items: "items = [demoItem 2 1000]"
    using i demo_items by (simp add: demoRequest_def)
  have "orderItems demoStore = []" by (simp add: demoStore_def)
  with r have "map oi_unitPriceCents (orderItems ?store') = [1000]"
    "map oi_quantity (orderItems ?store') = [2]"
    unfolding items by (simp_all add: demoItem_def)
  then show ?thesis
    unfolding demo_run by simp
qed

section \<open>The delivery address belongs to the user\<close>

text \<open>
  Claim C10, as stated, has every request that names an existing address of another user
  fail with \<open>InvalidAddress\<close> and the status 404. The handler looks the address up
  after it has checked the required fields and resolved the cart, so such a request with
  an empty cart is answered 400 \<open>InvalidItems\<close> instead.
\<close>

theorem foreign_address_rejected_counterexample:
  "\<lparr>a_id = 8, a_userId = 2\<rparr> \<in> set (addresses demoStore)
   \<and> b_address_id (body (demoRequest [] 8 500 None)) = Some 8
   \<and> u_id (user (demoRequest [] 8 500 None)) = 1
   \<and> createOrder demoEnv demoStore (demoRequest [] 8 500 None)
       = (Json_error 400 InvalidItems, [Rollback], demoStore)
   \<and> Json_error 400 InvalidItems \<noteq> Json_error 404 InvalidAddress"
  by code_simp

text \<open>
  Claim C10, amended. \<^verbatim>\<open>createOrder\<close> looks the delivery address up among the
  addresses of the authenticated user only. For every request whose \<^verbatim>\<open>address_id\<close> is
  the key of an existing address of another user, the request fails and the store is as
  it was (no order is created); the failure is \<open>InvalidAddress\<close> with the status 404
  whenever the required fields are present and the cart resolves.
\<close>

theorem foreign_address_rejected:
  assumes "a \<in> set (addresses store)" and "b_address_id (body req) = Some (a_id a)"
    and "a_userId a \<noteq> u_id (user req)" and "distinct (map a_id (addresses store))"
  shows "snd (snd (createOrder E store req)) = store
     \<and> (\<exists>code e. fst (createOrder E store req) = Json_error code e)
     \<and> (ensureFields E (body req) [''items'', ''address_id'', ''shipping''] = []
          \<and> (\<exists>items. resolveItems E (products store) (b_items (body req)) = Inr items)
        \<longrightarrow> createOrder E store req = (Json_error 404 InvalidAddress, [Rollback], store))"
proof -
  have none: "findAddress (addresses store) (b_address_id (body req)) (u_id (user req)) = None"
    unfolding assms(2) using assms(1,3,4) by (rule findAddress_foreign)
  have "createOrder E store req = (Json_error 404 InvalidAddress, [Rollback], store)"
    if "ensureFields E (body req) [''items'', ''address_id'', ''shipping''] = []"
      "resolveItems E (products store) (b_items (body req)) = Inr items" for items
    using that none by (simp add: createOrder_def)
  with createOrder_no_address [OF none] show ?thesis by blast
qed

theorem foreign_address_rejected_witness:
  "\<lparr>a_id = 8, a_userId = 2\<rparr> \<in> set (addresses demoStore)
   \<and> u_id (user (demoRequest [demoLine ''A'' 2 1000] 8 500 (Some ''OFF''))) = 1
   \<and> createOrder demoEnv demoStore (demoRequest [demoLine ''A'' 2 1000] 8 500 (Some ''OFF''))
       = (Json_error 404 InvalidAddress, [Rollback], demoStore)"
proof -
  let ?req = "demoRequest [demoLine ''A'' 2 1000] 8 500 (Some ''OFF'')"
  have h: "\<lparr>a_id = 8, a_userId = 2\<rparr> \<in> set (addresses demoStore)"
    "b_address_id (body ?req) = Some (a_id \<lparr>a_id = 8, a_userId = 2\<rparr>)"
    "a_userId \<lparr>a_id = 8, a_userId = 2\<rparr> \<noteq> u_id (user ?req)"
    "distinct (map a_id (addresses demoStore))"
    by (simp_all add: demoStore_def demoRequest_def demoUser_def)
  have f: "ensureFields demoEnv (body ?req) [''items'', ''address_id'', ''shipping''] = []"
    by (simp add: demoEnv_def)
  have i: "resolveItems demoEnv (products demoStore) (b_items (body ?req)) = Inr [demoItem 2 1000]"
    using demo_items by (simp add: demoRequest_def)
  from foreign_address_rejected [OF h, of demoEnv] f i h(1) show ?thesis
    by (simp add: demoRequest_def demoUser_def)
qed


end
